theory Spec2Isabelle
  imports Main "HOL-Library.Char_ord" "HOL-Library.List_Lexorder"
begin

section \<open>JavaScript values\<close>

text \<open>
  The values that cross the boundary to the remote collaborators (error objects of the
  API clients, task and server resources) are untyped JSON. They are modelled as a
  datatype, so that every property read on \<open>undefined\<close>, every truthiness test and
  every \<open>typeof\<close> check of the source is a branch of the model. An object is an
  association list; the first binding of a key is the one that is read. Numbers are
  integers; strings are byte strings.
\<close>

datatype jsval =
    JUndefined
  | JNull
  | JBool bool
  | JNum int
  | JStr string
  | JArr "jsval list"
  | JObj "(string \<times> jsval) list"

text \<open>What the source can throw: a failed \<open>assert-plus\<close> check (with the name of the
  argument) or the runtime's \<open>TypeError\<close>.\<close>

datatype thrown = AssertionError string | TypeError

text \<open>Sequencing of steps that may throw: the first exception ends the evaluation.\<close>

definition andThen :: "thrown + 'a \<Rightarrow> ('a \<Rightarrow> thrown + 'b) \<Rightarrow> thrown + 'b" where
  "andThen r f = (case r of Inl t \<Rightarrow> Inl t | Inr v \<Rightarrow> f v)"

text \<open>\<open>v.k\<close>: reading a property of \<open>undefined\<close> or \<open>null\<close> throws; a missing
  property, and any of the properties read by this program on a primitive or an array,
  is \<open>undefined\<close>.\<close>

fun js_get :: "jsval \<Rightarrow> string \<Rightarrow> thrown + jsval" where
  "js_get JUndefined k = Inl TypeError"
| "js_get JNull k = Inl TypeError"
| "js_get (JObj kvs) k = Inr (case map_of kvs k of None \<Rightarrow> JUndefined | Some v \<Rightarrow> v)"
| "js_get v k = Inr JUndefined"

text \<open>\<open>v[0]\<close>: the first element of an array, the first character of a string, the
  property \<open>0\<close> of an object.\<close>

fun js_first :: "jsval \<Rightarrow> thrown + jsval" where
  "js_first JUndefined = Inl TypeError"
| "js_first JNull = Inl TypeError"
| "js_first (JArr xs) = Inr (case xs of [] \<Rightarrow> JUndefined | x # _ \<Rightarrow> x)"
| "js_first (JStr s) = Inr (case s of [] \<Rightarrow> JUndefined | c # _ \<Rightarrow> JStr [c])"
| "js_first (JObj kvs) = Inr (case map_of kvs ''0'' of None \<Rightarrow> JUndefined | Some v \<Rightarrow> v)"
| "js_first v = Inr JUndefined"

fun truthy :: "jsval \<Rightarrow> bool" where
  "truthy JUndefined = False"
| "truthy JNull = False"
| "truthy (JBool b) = b"
| "truthy (JNum n) = (n \<noteq> 0)"
| "truthy (JStr s) = (s \<noteq> [])"
| "truthy v = True"

text \<open>\<open>typeof v === 'string'\<close>, \<open>'object'\<close> (which \<open>null\<close> and arrays satisfy) and
  \<open>'number'\<close>, as \<open>assert-plus\<close> tests them; an \<open>optional\<close> check accepts
  \<open>undefined\<close> as well.\<close>

fun is_string :: "jsval \<Rightarrow> bool" where
  "is_string (JStr s) = True"
| "is_string v = False"

fun is_object :: "jsval \<Rightarrow> bool" where
  "is_object JNull = True"
| "is_object (JArr xs) = True"
| "is_object (JObj kvs) = True"
| "is_object v = False"

fun is_number :: "jsval \<Rightarrow> bool" where
  "is_number (JNum n) = True"
| "is_number v = False"

definition optional :: "(jsval \<Rightarrow> bool) \<Rightarrow> jsval \<Rightarrow> bool" where
  "optional check v = (v = JUndefined \<or> check v)"

text \<open>Decimal digits of a natural number (\<open>%d\<close> of \<open>util.format\<close>).\<close>

definition digit :: "nat \<Rightarrow> char" where
  "digit d = ''0123456789'' ! d"

function string_of_nat :: "nat \<Rightarrow> string" where
  "string_of_nat n =
     (if n < 10 then [digit n] else string_of_nat (n div 10) @ [digit (n mod 10)])"
  by pat_completeness auto
termination
  by (relation "measure id") auto

declare string_of_nat.simps [simp del]

text \<open>\<open>String(v)\<close>, which is what \<open>%s\<close> of \<open>util.format\<close> and string concatenation
  apply to a value. An array is its elements joined by commas, \<open>null\<close> and
  \<open>undefined\<close> elements giving the empty string.\<close>

fun join :: "string \<Rightarrow> string list \<Rightarrow> string" where
  "join sep [] = []"
| "join sep [x] = x"
| "join sep (x # y # ys) = x @ sep @ join sep (y # ys)"

fun js_String :: "jsval \<Rightarrow> string" where
  "js_String JUndefined = ''undefined''"
| "js_String JNull = ''null''"
| "js_String (JBool b) = (if b then ''true'' else ''false'')"
| "js_String (JNum n) =
     (if n < 0 then ''-'' @ string_of_nat (nat (- n)) else string_of_nat (nat n))"
| "js_String (JStr s) = s"
| "js_String (JArr xs) =
     join '','' (map (\<lambda>x. if x = JUndefined \<or> x = JNull then [] else js_String x) xs)"
| "js_String (JObj kvs) = ''[object Object]''"


section \<open>Error classes (src/unnamed/part_000, required as ../errors)\<close>

text \<open>
  An instance of \<open>SdcAdmError\<close>: the string \<open>message\<close> that \<open>WError\<close> sets, the
  \<open>code\<close> and \<open>exitStatus\<close> that the constructor copies from its options, and what
  \<open>cause()\<close> gives. A value handed to a constructor is either a foreign value (an API
  client's error, a string) or another error of this module.
\<close>

datatype sdc_error =
  Err (code: string) (message: string) (cause: "dyn option") (exitStatus: int)
and dyn = Plain jsval | Failure sdc_error

fun dyn_is_object :: "dyn \<Rightarrow> bool" where
  "dyn_is_object (Plain v) = is_object v"
| "dyn_is_object (Failure e) = True"

fun dyn_is_string :: "dyn \<Rightarrow> bool" where
  "dyn_is_string (Plain v) = is_string v"
| "dyn_is_string (Failure e) = False"

fun dyn_is_number :: "dyn \<Rightarrow> bool" where
  "dyn_is_number (Plain v) = is_number v"
| "dyn_is_number (Failure e) = False"

fun dyn_truthy :: "dyn \<Rightarrow> bool" where
  "dyn_truthy (Plain v) = truthy v"
| "dyn_truthy (Failure e) = True"

definition dyn_optional :: "(dyn \<Rightarrow> bool) \<Rightarrow> dyn \<Rightarrow> bool" where
  "dyn_optional check v = (v = Plain JUndefined \<or> check v)"

fun the_string :: "dyn \<Rightarrow> string" where
  "the_string (Plain (JStr s)) = s"
| "the_string v = []"

text \<open>\<open>err.code\<close> and \<open>err.message\<close> of an element of the list given to
  \<open>MultiError\<close>.\<close>

fun dyn_code :: "dyn \<Rightarrow> thrown + jsval" where
  "dyn_code (Plain v) = js_get v ''code''"
| "dyn_code (Failure e) = Inr (JStr (code e))"

fun dyn_message :: "dyn \<Rightarrow> thrown + jsval" where
  "dyn_message (Plain v) = js_get v ''message''"
| "dyn_message (Failure e) = Inr (JStr (message e))"

text \<open>The options object of \<open>SdcAdmError\<close>: the fields the constructor reads. Its
  \<open>exitStatus\<close> is always a literal of this module.

  The constructor checks \<open>options.cause\<close> and hands it to \<open>WError.apply(this, args)\<close>
  (line 45). The class inherits \<open>VError\<close>, not \<open>WError\<close> (line 53): the
  \<open>this.cause(c)\<close> that \<open>WError\<close> calls to store the cause reaches the getter of
  \<open>VError\<close>, which stores nothing. So no error of this module keeps its cause, and
  \<open>cause()\<close> is \<open>undefined\<close> for every one of them.\<close>

record options =
  o_cause :: dyn
  o_message :: dyn
  o_code :: dyn
  o_statusCode :: dyn
  o_exitStatus :: int

definition SdcAdmError :: "options \<Rightarrow> thrown + sdc_error" where
  "SdcAdmError opts =
     (if \<not> dyn_is_string (o_message opts) then Inl (AssertionError ''options.message'')
      else if \<not> dyn_is_string (o_code opts) then Inl (AssertionError ''options.code'')
      else if \<not> dyn_optional dyn_is_object (o_cause opts)
        then Inl (AssertionError ''options.cause'')
      else if \<not> dyn_optional dyn_is_number (o_statusCode opts)
        then Inl (AssertionError ''options.statusCode'')
      else Inr (Err (the_string (o_code opts)) (the_string (o_message opts)) None
                  (o_exitStatus opts)))"

text \<open>\<open>InternalError(options)\<close>: the caller's options give \<open>cause\<close>, \<open>message\<close> and
  \<open>statusCode\<close>; \<open>code\<close> and \<open>exitStatus\<close> are overwritten.\<close>

definition InternalError :: "options \<Rightarrow> thrown + sdc_error" where
  "InternalError opts =
     (if \<not> dyn_optional dyn_is_object (o_cause opts)
        then Inl (AssertionError ''options.cause'')
      else if \<not> dyn_is_string (o_message opts)
        then Inl (AssertionError ''options.message'')
      else SdcAdmError (opts\<lparr>o_code := Plain (JStr ''InternalError''), o_exitStatus := 1\<rparr>))"

text \<open>\<open>UsageError(cause, message)\<close> and \<open>UpdateError(cause, message)\<close>: called with one
  argument, that argument is the message.\<close>

definition UsageError :: "dyn \<Rightarrow> dyn \<Rightarrow> thrown + sdc_error" where
  "UsageError cause0 message0 =
     (let message1 = (if message0 = Plain JUndefined then cause0 else message0);
          cause1 = (if message0 = Plain JUndefined then Plain JUndefined else cause0)
      in if \<not> dyn_is_string message1 then Inl (AssertionError ''string'')
         else SdcAdmError \<lparr>o_cause = cause1, o_message = message1,
                o_code = Plain (JStr ''Usage''), o_statusCode = Plain JUndefined,
                o_exitStatus = 2\<rparr>)"

definition UpdateError :: "dyn \<Rightarrow> dyn \<Rightarrow> thrown + sdc_error" where
  "UpdateError cause0 message0 =
     (let message1 = (if message0 = Plain JUndefined then cause0 else message0);
          cause1 = (if message0 = Plain JUndefined then Plain JUndefined else cause0)
      in if \<not> dyn_is_string message1 then Inl (AssertionError ''string'')
         else SdcAdmError \<lparr>o_cause = cause1, o_message = message1,
                o_code = Plain (JStr ''Update''), o_statusCode = Plain JUndefined,
                o_exitStatus = 2\<rparr>)"

text \<open>The loop over \<open>cause.body.errors\<close> of \<open>SDCClientError\<close>: one line per entry,
  appended to the message.\<close>

definition error_line :: "jsval \<Rightarrow> thrown + string" where
  "error_line e =
     andThen (js_get e ''field'') (\<lambda>field.
     andThen (js_get e ''code'') (\<lambda>ecode.
     andThen (js_get e ''message'') (\<lambda>emsg.
       Inr ([CHR 0x0A] @ ''    '' @ js_String field @ '': '' @ js_String ecode @
            (if truthy emsg then '': '' @ js_String emsg else [])))))"

fun error_lines :: "jsval list \<Rightarrow> string \<Rightarrow> thrown + string" where
  "error_lines [] msg = Inr msg"
| "error_lines (e # es) msg = andThen (error_line e) (\<lambda>l. error_lines es (msg @ l))"

text \<open>\<open>cause.body.errors.forEach(...)\<close>, reached when \<open>errors\<close> is truthy: only an
  array has \<open>forEach\<close>.\<close>

fun forEach_errors :: "jsval \<Rightarrow> string \<Rightarrow> thrown + string" where
  "forEach_errors (JArr es) msg = error_lines es msg"
| "forEach_errors v msg = Inl TypeError"

definition SDCClientError :: "jsval \<Rightarrow> jsval \<Rightarrow> thrown + sdc_error" where
  "SDCClientError cause0 clientName =
     (if \<not> is_object cause0 then Inl (AssertionError ''cause'')
      else
        andThen (js_get cause0 ''body'') (\<lambda>body.
        andThen (js_get body ''code'') (\<lambda>bcode.
          if \<not> optional is_string bcode then Inl (AssertionError ''cause.body.code'')
          else
            andThen (js_get body ''message'') (\<lambda>bmsg.
              if \<not> is_string bmsg then Inl (AssertionError ''cause.body.message'')
              else if \<not> is_string clientName then Inl (AssertionError ''clientName'')
              else
                let codeExtra = (if truthy bcode then '' ('' @ js_String bcode @ '')'' else [])
                in
                  andThen (js_get body ''errors'') (\<lambda>errors.
                  andThen (if truthy errors then forEach_errors errors (js_String bmsg)
                           else Inr (js_String bmsg)) (\<lambda>msg.
                    SdcAdmError \<lparr>o_cause = Plain cause0,
                      o_message = Plain (JStr (js_String clientName @ '' client error'' @
                                                codeExtra @ '': '' @ msg)),
                      o_code = Plain (JStr ''SDCClient''), o_statusCode = Plain JUndefined,
                      o_exitStatus = 1\<rparr>))))))"

text \<open>\<open>MultiError(errs)\<close>: \<open>assert.arrayOfObject\<close>, then one digest line per element;
  \<open>errs[0]\<close> is given as the cause.\<close>

definition multi_line :: "dyn \<Rightarrow> thrown + string" where
  "multi_line err =
     andThen (dyn_code err) (\<lambda>c.
     andThen (dyn_message err) (\<lambda>m.
       Inr (''    error ('' @ js_String c @ ''): '' @ js_String m)))"

fun multi_lines :: "dyn list \<Rightarrow> string list \<Rightarrow> thrown + string list" where
  "multi_lines [] lines = Inr lines"
| "multi_lines (err # errs) lines =
     andThen (multi_line err) (\<lambda>l. multi_lines errs (lines @ [l]))"

definition MultiError :: "dyn list \<Rightarrow> thrown + sdc_error" where
  "MultiError errs =
     (if \<not> list_all dyn_is_object errs then Inl (AssertionError ''errs'')
      else
        andThen (multi_lines errs
                   [''multiple ('' @ string_of_nat (length errs) @ '') errors'']) (\<lambda>lines.
          SdcAdmError \<lparr>o_cause = (case errs of [] \<Rightarrow> Plain JUndefined | e # _ \<Rightarrow> e),
            o_message = Plain (JStr (join [CHR 0x0A] lines)),
            o_code = Plain (JStr ''MultiError''), o_statusCode = Plain JUndefined,
            o_exitStatus = 1\<rparr>))"


section \<open>The agent update procedure (src/unnamed/part_001)\<close>

subsection \<open>Data and collaborators\<close>

record image_t =
  uuid :: string

text \<open>An instance as \<open>sdcadm.listInsts\<close> and the plan give it. Its \<open>version\<close> and its
  \<open>image\<close> may be missing.\<close>

record inst =
  service :: string
  server :: string
  version :: "string option"
  inst_image :: "image_t option"

record change =
  change_image :: image_t
  insts :: "inst list"

text \<open>
  The collaborators, as the answers they give. A Node callback receives \<open>(err, value)\<close>:
  each answer is that pair. \<open>cnapi_getTask env id k\<close> is the answer to the \<open>k\<close>-th query
  of task \<open>id\<close>, and likewise for \<open>cnapi_getServer\<close>. \<open>semver_other\<close> is the verdict of
  the \<open>semver\<close> library on a version string that is not a plain \<open>X.Y.Z\<close>.
\<close>

record env =
  listInsts :: "jsval \<times> inst list"
  cnapi_post :: "string \<Rightarrow> string \<Rightarrow> jsval \<times> jsval"
  cnapi_getTask :: "jsval \<Rightarrow> nat \<Rightarrow> jsval \<times> jsval"
  cnapi_getServer :: "string \<Rightarrow> nat \<Rightarrow> jsval \<times> jsval"
  semver_other :: "string \<Rightarrow> thrown + bool"

text \<open>How an asynchronous step ends: its callback is invoked, with an error or with
  none, or an exception escapes and the callback is never invoked.\<close>

datatype outcome = Done "dyn option" | Uncaught thrown

definition callback_with :: "thrown + sdc_error \<Rightarrow> outcome" where
  "callback_with r = (case r of Inl t \<Rightarrow> Uncaught t | Inr e \<Rightarrow> Done (Some (Failure e)))"

definition MIN_CNAPI_VERSION :: string where
  "MIN_CNAPI_VERSION = ''20150407T172714Z''"

definition CN_CONCUR :: nat where
  "CN_CONCUR = 10"

subsection \<open>Strings and versions\<close>

text \<open>\<open>s.split(c)\<close> for a one-character separator: always at least one field.\<close>

fun split :: "char \<Rightarrow> string \<Rightarrow> string list" where
  "split c [] = [[]]"
| "split c (x # xs) =
     (if x = c then [] # split c xs
      else (case split c xs of [] \<Rightarrow> [[x]] | p # ps \<Rightarrow> (x # p) # ps))"

text \<open>\<open>parts[parts.length - 2]\<close>: \<open>undefined\<close> when there is a single field.\<close>

definition second_to_last :: "string list \<Rightarrow> string option" where
  "second_to_last parts =
     (if 2 \<le> length parts then Some (parts ! (length parts - 2)) else None)"

text \<open>
  Modelled from the spec: the \<open>semver\<close> library, which is a dependency and not in the
  sources. The spec asks that the cn-agent version be 1.4.0 or newer. The model covers a
  plain version \<open>X.Y.Z\<close> of numeric identifiers without leading zeros: as a range such
  a string denotes exactly that version, so \<open>satisfies(v, r)\<close> is equality and
  \<open>ltr(v, r)\<close> holds when \<open>v\<close> is lower than \<open>r\<close> in the order of (major, minor,
  patch). Any other string is left to \<open>semver_other\<close>.
\<close>

definition digit_value :: "char \<Rightarrow> nat option" where
  "digit_value c = (if c \<in> set ''0123456789'' then Some (of_char c - 48) else None)"

fun numeric_identifier :: "string \<Rightarrow> nat \<Rightarrow> nat option" where
  "numeric_identifier [] acc = Some acc"
| "numeric_identifier (c # cs) acc =
     (case digit_value c of None \<Rightarrow> None
      | Some d \<Rightarrow> numeric_identifier cs (10 * acc + d))"

definition parse_number :: "string \<Rightarrow> nat option" where
  "parse_number s =
     (if s = [] \<or> (hd s = CHR ''0'' \<and> s \<noteq> ''0'') then None else numeric_identifier s 0)"

definition parse_version :: "string \<Rightarrow> (nat \<times> nat \<times> nat) option" where
  "parse_version s =
     (case split CHR ''.'' s of
        [a, b, c] \<Rightarrow>
          (case (parse_number a, parse_number b, parse_number c) of
             (Some x, Some y, Some z) \<Rightarrow> Some (x, y, z)
           | _ \<Rightarrow> None)
      | _ \<Rightarrow> None)"

fun version_less :: "nat \<times> nat \<times> nat \<Rightarrow> nat \<times> nat \<times> nat \<Rightarrow> bool" where
  "version_less (a, b, c) (x, y, z) =
     (a < x \<or> (a = x \<and> (b < y \<or> (b = y \<and> c < z))))"

definition satisfies :: "nat \<times> nat \<times> nat \<Rightarrow> nat \<times> nat \<times> nat \<Rightarrow> bool" where
  "satisfies v r = (v = r)"

definition ltr :: "nat \<times> nat \<times> nat \<Rightarrow> nat \<times> nat \<times> nat \<Rightarrow> bool" where
  "ltr v r = version_less v r"

text \<open>\<open>semver.satisfies('1.4.0', version) || semver.ltr('1.4.0', version)\<close>.\<close>

definition min_cn_agent :: "env \<Rightarrow> string \<Rightarrow> thrown + bool" where
  "min_cn_agent env v =
     (case parse_version v of
        Some r \<Rightarrow> Inr (satisfies (1, 4, 0) r \<or> ltr (1, 4, 0) r)
      | None \<Rightarrow> semver_other env v)"

text \<open>\<open>new UpdateError(msg)\<close> with a message built by \<open>format\<close>.\<close>

definition new_UpdateError :: "string \<Rightarrow> thrown + sdc_error" where
  "new_UpdateError msg = UpdateError (Plain (JStr msg)) (Plain JUndefined)"

subsection \<open>The precondition on CNAPI\<close>

text \<open>\<open>checkMinCNAPIVersion\<close>: the outcome given to \<open>next\<close>, and the cn-agent instances
  it leaves in \<open>cnAgentInsts\<close>.\<close>

definition too_old_message :: "string option \<Rightarrow> string" where
  "too_old_message curImg =
     ''image for cnapi is too old for '' @ [CHR 0x60] @ ''sdcadm update agents'' @
     [CHR 0x60] @ '' (min image build date is '' @ [CHR 0x22] @ MIN_CNAPI_VERSION @
     [CHR 0x22] @ '' current image build date is'' @ [CHR 0x22] @
     (case curImg of None \<Rightarrow> ''undefined'' | Some c \<Rightarrow> c) @ [CHR 0x22] @ '')''"

definition checkMinCNAPIVersion :: "env \<Rightarrow> outcome \<times> inst list" where
  "checkMinCNAPIVersion env =
     (case listInsts env of (err, instances) \<Rightarrow>
        if truthy err then (Done (Some (Plain err)), [])
        else
          let cnapiInsts = filter (\<lambda>i. service i = ''cnapi'') instances;
              cnAgentInsts = filter (\<lambda>i. service i = ''cn-agent'') instances
          in case cnapiInsts of
               [] \<Rightarrow> (Uncaught TypeError, cnAgentInsts)
             | i0 # _ \<Rightarrow>
                 (case version i0 of
                    None \<Rightarrow> (Uncaught TypeError, cnAgentInsts)
                  | Some v \<Rightarrow>
                      let curImg = second_to_last (split CHR ''-'' v)
                      in if (case curImg of None \<Rightarrow> False
                             | Some c \<Rightarrow> c < MIN_CNAPI_VERSION)
                         then (callback_with (new_UpdateError (too_old_message curImg)),
                               cnAgentInsts)
                         else (Done None, cnAgentInsts)))"

subsection \<open>The two poll loops\<close>

definition limit :: nat where
  "limit = 60"

text \<open>What a poll loop reports: how it ended, the number of queries it made and the
  time it spent in \<open>setTimeout\<close>, in milliseconds.\<close>

record polled =
  ended :: outcome
  attempts :: nat
  waited :: nat

text \<open>One answer of \<open>getTask\<close>, as the callback of \<open>_waitTask\<close> reads it: \<open>Some\<close> when
  the answer ends the loop, \<open>None\<close> when the loop goes on to its counter.\<close>

definition task_answer :: "jsval \<Rightarrow> jsval \<times> jsval \<Rightarrow> outcome option" where
  "task_answer taskid answer =
     (case answer of (err, task) \<Rightarrow>
        if truthy err then Some (callback_with (SDCClientError err (JStr ''cnapi'')))
        else
          (case js_get task ''status'' of
             Inl t \<Rightarrow> Some (Uncaught t)
           | Inr status \<Rightarrow>
               if status = JStr ''failure'' then
                 (case andThen (js_get task ''history'') (\<lambda>history.
                       andThen (js_first history) (\<lambda>h0.
                       andThen (js_get h0 ''event'') (\<lambda>event.
                       andThen (js_get event ''error'') (\<lambda>error.
                         if truthy error
                         then andThen (js_get error ''message'') (\<lambda>m.
                                Inr ('' with error: '' @ js_String m))
                         else Inr [])))) of
                    Inl t \<Rightarrow> Some (Uncaught t)
                  | Inr extra \<Rightarrow>
                      Some (callback_with (new_UpdateError
                        (''Task '' @ js_String taskid @ '' failed'' @ extra))))
               else if status = JStr ''complete'' then Some (Done None)
               else None))"

function waitTask :: "env \<Rightarrow> jsval \<Rightarrow> nat \<Rightarrow> polled" where
  "waitTask env taskid counter =
     (case task_answer taskid (cnapi_getTask env taskid (counter + 1)) of
        Some out \<Rightarrow> \<lparr>ended = out, attempts = counter + 1, waited = 0\<rparr>
      | None \<Rightarrow>
          if counter + 1 < limit then
            (let r = waitTask env taskid (counter + 1) in r\<lparr>waited := waited r + 5000\<rparr>)
          else
            \<lparr>ended = callback_with (new_UpdateError
                       (''Timeout(5m) waiting for task '' @ js_String taskid)),
             attempts = counter + 1, waited = 0\<rparr>)"
  by pat_completeness auto
termination
  by (relation "measure (\<lambda>(env, taskid, counter). limit - counter)") auto

declare waitTask.simps [simp del]

definition waitUntilTaskCompletes :: "env \<Rightarrow> jsval \<Rightarrow> polled" where
  "waitUntilTaskCompletes env taskid = waitTask env taskid 0"

text \<open>\<open>server.agents.filter(function (a) { return (a.name === 'cn-agent'); })\<close>: only
  an array has \<open>filter\<close>, and reading \<open>name\<close> of a \<open>null\<close> entry throws.\<close>

fun filter_cn_agent :: "jsval list \<Rightarrow> thrown + jsval list" where
  "filter_cn_agent [] = Inr []"
| "filter_cn_agent (a # as) =
     andThen (js_get a ''name'') (\<lambda>n.
     andThen (filter_cn_agent as) (\<lambda>rest.
       Inr (if n = JStr ''cn-agent'' then a # rest else rest)))"

fun agents_filter :: "jsval \<Rightarrow> thrown + jsval list" where
  "agents_filter (JArr as) = filter_cn_agent as"
| "agents_filter v = Inl TypeError"

definition server_answer :: "string \<Rightarrow> jsval \<times> jsval \<Rightarrow> outcome option" where
  "server_answer image_uuid answer =
     (case answer of (err, server0) \<Rightarrow>
        if truthy err then Some (callback_with (SDCClientError err (JStr ''cnapi'')))
        else
          (case andThen (js_get server0 ''agents'') (\<lambda>agents.
                andThen (agents_filter agents) (\<lambda>found.
                andThen (js_first (JArr found)) (\<lambda>theAgent.
                  js_get theAgent ''image_uuid''))) of
             Inl t \<Rightarrow> Some (Uncaught t)
           | Inr u \<Rightarrow> if u = JStr image_uuid then Some (Done None) else None))"

function waitServer :: "env \<Rightarrow> change \<Rightarrow> string \<Rightarrow> nat \<Rightarrow> polled" where
  "waitServer env chg server_uuid counter =
     (case server_answer (uuid (change_image chg))
             (cnapi_getServer env server_uuid (counter + 1)) of
        Some out \<Rightarrow> \<lparr>ended = out, attempts = counter + 1, waited = 0\<rparr>
      | None \<Rightarrow>
          if counter + 1 < limit then
            (let r = waitServer env chg server_uuid (counter + 1)
             in r\<lparr>waited := waited r + 5000\<rparr>)
          else
            \<lparr>ended = callback_with (new_UpdateError
                       (''Timeout(5m) waiting for cn-agent update on server '' @
                        server_uuid)),
             attempts = counter + 1, waited = 0\<rparr>)"
  by pat_completeness auto
termination
  by (relation "measure (\<lambda>(env, chg, server_uuid, counter). limit - counter)") auto

declare waitServer.simps [simp del]

definition waitUntilAgentsChange :: "env \<Rightarrow> change \<Rightarrow> string \<Rightarrow> polled" where
  "waitUntilAgentsChange env chg server_uuid = waitServer env chg server_uuid 0"


subsection \<open>One instance: upAgent\<close>

text \<open>
  How the worker of one instance ends: it pushed an error into \<open>errs\<close> and called
  \<open>cb()\<close>; it called \<open>cb(err)\<close> without pushing; it called \<open>cb()\<close> with nothing
  pushed; or an exception escaped. With it, the servers an \<open>install-agent\<close> request
  was posted to and the number of poll queries made.
\<close>

datatype finished = Recorded dyn | Dropped sdc_error | Clean | Threw thrown

record worked =
  finish :: finished
  posted :: "string list"
  queries :: nat

definition pushed :: "thrown + sdc_error \<Rightarrow> finished" where
  "pushed r = (case r of Inl t \<Rightarrow> Threw t | Inr e \<Rightarrow> Recorded (Failure e))"

text \<open>The callback given to the poll loop: \<open>if (er3) errs.push(er3)\<close>, then \<open>cb()\<close>.\<close>

definition after_poll :: "outcome \<Rightarrow> finished" where
  "after_poll out =
     (case out of
        Uncaught t \<Rightarrow> Threw t
      | Done None \<Rightarrow> Clean
      | Done (Some er3) \<Rightarrow> if dyn_truthy er3 then Recorded er3 else Clean)"

definition unknown_image_message :: "inst \<Rightarrow> string" where
  "unknown_image_message arg =
     ''Unknown image for '' @ service arg @ '' in server '' @ server arg"

definition unknown_version_message :: "inst \<Rightarrow> string" where
  "unknown_version_message arg =
     ''Unknown version for cn-agent in server '' @ server arg"

definition invalid_version_message :: "inst \<Rightarrow> string \<Rightarrow> string" where
  "invalid_version_message arg v =
     ''Invalid cn-agent version in server '' @ server arg @
     ''. Minimal version to run agent updates is 1.4.0 (current version is '' @ v @ '')''"

definition upAgent :: "env \<Rightarrow> inst list \<Rightarrow> change \<Rightarrow> inst \<Rightarrow> worked" where
  "upAgent env cnAgentInsts chg arg =
     (let cnAgentInstance =
            (if service arg = ''cn-agent'' then Some arg
             else (case filter (\<lambda>i. server i = server arg) cnAgentInsts of
                     [] \<Rightarrow> None | i # _ \<Rightarrow> Some i))
      in
        case inst_image arg of
          None \<Rightarrow>
            \<lparr>finish = pushed (new_UpdateError (unknown_image_message arg)),
             posted = [], queries = 0\<rparr>
        | Some _ \<Rightarrow>
            (case cnAgentInstance of
               None \<Rightarrow> \<lparr>finish = Threw TypeError, posted = [], queries = 0\<rparr>
             | Some ca \<Rightarrow>
                 (case version ca of
                    None \<Rightarrow>
                      \<lparr>finish = pushed (new_UpdateError (unknown_version_message arg)),
                       posted = [], queries = 0\<rparr>
                  | Some v \<Rightarrow>
                      if v = [] then
                        \<lparr>finish = pushed (new_UpdateError (unknown_version_message arg)),
                         posted = [], queries = 0\<rparr>
                      else
                        (case min_cn_agent env v of
                           Inl t \<Rightarrow> \<lparr>finish = Threw t, posted = [], queries = 0\<rparr>
                         | Inr able \<Rightarrow>
                             if \<not> able then
                               \<lparr>finish = pushed (new_UpdateError
                                           (invalid_version_message arg v)),
                                posted = [], queries = 0\<rparr>
                             else
                               (case cnapi_post env (server arg) (uuid (change_image chg)) of
                                  (er2, res) \<Rightarrow>
                                    if truthy er2 then
                                      \<lparr>finish =
                                         (case SDCClientError er2 (JStr ''cnapi'') of
                                            Inl t \<Rightarrow> Threw t | Inr e \<Rightarrow> Dropped e),
                                       posted = [server arg], queries = 0\<rparr>
                                    else if service arg = ''cn-agent'' then
                                      (let p = waitUntilAgentsChange env chg (server arg)
                                       in \<lparr>finish = after_poll (ended p),
                                           posted = [server arg], queries = attempts p\<rparr>)
                                    else
                                      (case js_get res ''id'' of
                                         Inl t \<Rightarrow>
                                           \<lparr>finish = Threw t, posted = [server arg],
                                            queries = 0\<rparr>
                                       | Inr taskid \<Rightarrow>
                                           (let p = waitUntilTaskCompletes env taskid
                                            in \<lparr>finish = after_poll (ended p),
                                                posted = [server arg],
                                                queries = attempts p\<rparr>)))))))"

text \<open>
  Every path of \<open>upAgent\<close> that ends before \<open>sdcadm.cnapi.post\<close> ends before the
  worker returns: it has pushed its error and called \<open>cb()\<close>, or it has thrown. Every
  path that reaches the post ends later, in a callback. So a worker ended before it
  returned exactly when it posted nothing.
\<close>

definition synchronous :: "worked \<Rightarrow> bool" where
  "synchronous r = (posted r = [])"

fun thrown_by :: "finished \<Rightarrow> thrown option" where
  "thrown_by (Threw t) = Some t"
| "thrown_by f = None"

subsection \<open>The work queue\<close>

text \<open>
  Modelled from the spec: the bounded work queue (\<open>vasync.queue\<close>), which is a
  dependency and not in the sources. It is constructed with a worker and a concurrency
  limit; at most that many worker invocations run at once, further items wait in line in
  FIFO order, an item's failure never aborts the queue, and the queue ends once it is
  closed and every pushed item's worker has completed.

  A run of the queue is the list of its events. While an item waits and a slot is free,
  the head of the line starts. A worker that calls its callback before it returns
  (\<open>immediate\<close>) completes there and then, and never holds a slot while another event
  happens. When no item can start, one of the running workers completes. Which one is
  the environment's choice: \<open>sched\<close> lists these choices (an index into the running
  workers, the oldest when the list is used up).
\<close>

datatype 'a event = Start 'a | Finish 'a

function drain ::
  "nat \<Rightarrow> ('a \<Rightarrow> bool) \<Rightarrow> nat list \<Rightarrow> 'a list \<Rightarrow> 'a list \<Rightarrow> 'a event list" where
  "drain conc immediate sched queued pending =
     (if queued \<noteq> [] \<and> length pending < conc then
        (if immediate (hd queued) then
           Start (hd queued) # Finish (hd queued) #
           drain conc immediate sched (tl queued) pending
         else
           Start (hd queued) #
           drain conc immediate sched (tl queued) (pending @ [hd queued]))
      else if pending = [] then []
      else
        (let i = (case sched of [] \<Rightarrow> 0 | c # _ \<Rightarrow> c mod length pending)
         in Finish (pending ! i) #
            drain conc immediate (tl sched) queued (take i pending @ drop (Suc i) pending)))"
  by pat_completeness auto
termination
proof (relation "measure (\<lambda>(conc, immediate, sched, queued, pending).
                   2 * length queued + length pending)")
  fix conc :: nat and immediate :: "'a \<Rightarrow> bool" and sched :: "nat list"
    and queued pending :: "'a list"
  assume "queued \<noteq> [] \<and> length pending < conc"
  then obtain q qs where q: "queued = q # qs" by (cases queued) auto
  then show "((conc, immediate, sched, tl queued, pending),
              conc, immediate, sched, queued, pending)
        \<in> measure (\<lambda>(conc, immediate, sched, queued, pending).
                   2 * length queued + length pending)"
    by simp
  from q show "((conc, immediate, sched, tl queued, pending @ [hd queued]),
              conc, immediate, sched, queued, pending)
        \<in> measure (\<lambda>(conc, immediate, sched, queued, pending).
                   2 * length queued + length pending)"
    by simp
next
  fix conc :: nat and immediate :: "'a \<Rightarrow> bool" and sched :: "nat list"
    and queued pending :: "'a list" and i
  assume "pending \<noteq> []"
    and i: "i = (case sched of [] \<Rightarrow> 0 | c # x \<Rightarrow> c mod length pending)"
  then have "0 < length pending" by simp
  then have "i < length pending" using i by (simp split: list.splits)
  then show "((conc, immediate, tl sched, queued, take i pending @ drop (Suc i) pending),
              conc, immediate, sched, queued, pending)
        \<in> measure (\<lambda>(conc, immediate, sched, queued, pending).
                   2 * length queued + length pending)"
    by simp
qed simp

declare drain.simps [simp del]

definition queue_events ::
  "nat \<Rightarrow> ('a \<Rightarrow> bool) \<Rightarrow> nat list \<Rightarrow> 'a list \<Rightarrow> 'a event list" where
  "queue_events conc immediate sched tasks = drain conc immediate sched tasks []"

text \<open>The number of workers running after a list of events.\<close>

fun running :: "'a event list \<Rightarrow> int" where
  "running [] = 0"
| "running (Start a # es) = running es + 1"
| "running (Finish a # es) = running es - 1"

fun started :: "'a event list \<Rightarrow> 'a list" where
  "started [] = []"
| "started (Start a # es) = a # started es"
| "started (Finish a # es) = started es"

subsection \<open>One Change: updateAgent\<close>

text \<open>The state that \<open>execute\<close> shares between its callbacks: the collector \<open>errs\<close>,
  and the log of the servers that \<open>install-agent\<close> was posted to.\<close>

record shared =
  errs :: "dyn list"
  posts :: "string list"

text \<open>The events of the queue, as the worker and its callback act on the shared state.
  At its start a worker throws, when it is one that throws before it returns, or else
  logs its post; at its completion it pushes its error, or throws in a callback. An
  exception that escapes ends the process: nothing later happens.\<close>

fun replay :: "(inst \<Rightarrow> worked) \<Rightarrow> inst event list \<Rightarrow> shared \<Rightarrow> thrown option \<times> shared" where
  "replay w [] s = (None, s)"
| "replay w (Start a # es) s =
     (case (if synchronous (w a) then thrown_by (finish (w a)) else None) of
        Some t \<Rightarrow> (Some t, s)
      | None \<Rightarrow> replay w es (s\<lparr>posts := posts s @ posted (w a)\<rparr>))"
| "replay w (Finish a # es) s =
     (case finish (w a) of
        Recorded e \<Rightarrow> replay w es (s\<lparr>errs := errs s @ [e]\<rparr>)
      | Dropped e \<Rightarrow> replay w es s
      | Clean \<Rightarrow> replay w es s
      | Threw t \<Rightarrow> (Some t, s))"

text \<open>\<open>updateAgentOnServers\<close>: all the instances of the Change go through one queue;
  its \<open>end\<close> handler reports the collector.\<close>

definition updateAgentOnServers ::
  "env \<Rightarrow> inst list \<Rightarrow> change \<Rightarrow> nat list \<Rightarrow> shared \<Rightarrow> outcome \<times> shared" where
  "updateAgentOnServers env cnAgentInsts chg sched s =
     (case replay (upAgent env cnAgentInsts chg)
             (queue_events CN_CONCUR (\<lambda>a. synchronous (upAgent env cnAgentInsts chg a))
                sched (insts chg)) s of
        (Some t, s') \<Rightarrow> (Uncaught t, s')
      | (None, s') \<Rightarrow>
          if errs s' \<noteq> [] then (callback_with (MultiError (errs s')), s')
          else (Done None, s'))"

text \<open>\<open>updateAgent\<close>: the pipeline of the two steps (\<open>vasync.pipeline\<close>, a
  dependency: the steps run in order and the first error ends the pipeline); the second
  runs only when the first reports no error.\<close>

definition updateAgent :: "env \<Rightarrow> change \<times> nat list \<Rightarrow> shared \<Rightarrow> outcome \<times> shared" where
  "updateAgent env cs s =
     (case checkMinCNAPIVersion env of
        (Done None, cnAgentInsts) \<Rightarrow> updateAgentOnServers env cnAgentInsts (fst cs) (snd cs) s
      | (out, _) \<Rightarrow> (out, s))"

subsection \<open>The Plan: execute\<close>

text \<open>
  Modelled from the spec: \<open>vasync.forEachPipeline\<close>, which is a dependency and not in
  the sources. The inputs are processed one at a time, strictly in order; the callback
  receives the first error, or success when every input succeeded.
\<close>

fun forEachPipeline ::
  "('i \<Rightarrow> 's \<Rightarrow> outcome \<times> 's) \<Rightarrow> 'i list \<Rightarrow> 's \<Rightarrow> outcome \<times> 's" where
  "forEachPipeline func [] s = (Done None, s)"
| "forEachPipeline func (x # xs) s =
     (case func x s of
        (Done None, s') \<Rightarrow> forEachPipeline func xs s'
      | (out, s') \<Rightarrow> (out, s'))"

text \<open>\<open>execute\<close>: each Change of the Plan comes with the completion order of its
  fan-out.\<close>

definition uaExecute :: "env \<Rightarrow> (change \<times> nat list) list \<Rightarrow> outcome \<times> shared" where
  "uaExecute env plan = forEachPipeline (updateAgent env) plan \<lparr>errs = [], posts = []\<rparr>"


section \<open>Properties of the error classes\<close>

lemma SdcAdmError_Inr:
  "SdcAdmError opts = Inr e \<Longrightarrow>
     o_code opts = Plain (JStr (code e)) \<and> o_message opts = Plain (JStr (message e)) \<and>
     cause e = None \<and> exitStatus e = o_exitStatus opts"
  apply (cases "o_code opts"; cases "o_message opts")
  apply (auto simp: SdcAdmError_def split: if_splits)
  subgoal for x y by (cases x; cases y; simp)
  subgoal for x y by (cases x; cases y; simp)
  done

lemma andThen_Inr: "andThen r f = Inr y \<longleftrightarrow> (\<exists>v. r = Inr v \<and> f v = Inr y)"
  by (cases r) (auto simp: andThen_def)

lemma andThen_simps [simp]: "andThen (Inl t) f = Inl t" "andThen (Inr v) f = f v"
  by (simp_all add: andThen_def)

text \<open>
  Claim C3, as the code has it. Every error that a constructor of the module builds
  carries the code and the exit status of its class: \<open>InternalError\<close> has code
  \<open>InternalError\<close> and exit status 1, \<open>UsageError\<close> has \<open>Usage\<close> and 2,
  \<open>UpdateError\<close> has \<open>Update\<close> and 2, \<open>SDCClientError\<close> has \<open>SDCClient\<close> and 1,
  \<open>MultiError\<close> has \<open>MultiError\<close> and 1. The message of an \<open>InternalError\<close>, a
  \<open>UsageError\<close> and an \<open>UpdateError\<close> is the string given to the constructor.
\<close>

theorem error_taxonomy:
  "(InternalError opts = Inr e1 \<longrightarrow>
      code e1 = ''InternalError'' \<and> exitStatus e1 = 1 \<and>
      o_message opts = Plain (JStr (message e1))) \<and>
   (UsageError c2 m2 = Inr e2 \<longrightarrow>
      code e2 = ''Usage'' \<and> exitStatus e2 = 2 \<and>
      (if m2 = Plain JUndefined then c2 else m2) = Plain (JStr (message e2))) \<and>
   (UpdateError c3 m3 = Inr e3 \<longrightarrow>
      code e3 = ''Update'' \<and> exitStatus e3 = 2 \<and>
      (if m3 = Plain JUndefined then c3 else m3) = Plain (JStr (message e3))) \<and>
   (SDCClientError c4 n4 = Inr e4 \<longrightarrow> code e4 = ''SDCClient'' \<and> exitStatus e4 = 1) \<and>
   (MultiError ds = Inr e5 \<longrightarrow> code e5 = ''MultiError'' \<and> exitStatus e5 = 1)"
proof (intro conjI impI)
  assume a: "InternalError opts = Inr e1"
  then have "SdcAdmError (opts\<lparr>o_code := Plain (JStr ''InternalError''), o_exitStatus := 1\<rparr>)
               = Inr e1"
    by (simp add: InternalError_def split: if_splits)
  from SdcAdmError_Inr [OF this]
  show "code e1 = ''InternalError''" "exitStatus e1 = 1"
    "o_message opts = Plain (JStr (message e1))"
    by simp_all
next
  assume a: "UsageError c2 m2 = Inr e2"
  then show "code e2 = ''Usage''" "exitStatus e2 = 2"
    "(if m2 = Plain JUndefined then c2 else m2) = Plain (JStr (message e2))"
    by (auto simp: UsageError_def Let_def split: if_splits dest!: SdcAdmError_Inr)
next
  assume a: "UpdateError c3 m3 = Inr e3"
  then show "code e3 = ''Update''" "exitStatus e3 = 2"
    "(if m3 = Plain JUndefined then c3 else m3) = Plain (JStr (message e3))"
    by (auto simp: UpdateError_def Let_def split: if_splits dest!: SdcAdmError_Inr)
next
  assume a: "SDCClientError c4 n4 = Inr e4"
  then show "code e4 = ''SDCClient''" "exitStatus e4 = 1"
    by (auto simp: SDCClientError_def Let_def andThen_Inr split: if_splits
          dest!: SdcAdmError_Inr)
next
  assume a: "MultiError ds = Inr e5"
  then show "code e5 = ''MultiError''" "exitStatus e5 = 1"
    by (auto simp: MultiError_def andThen_Inr split: if_splits dest!: SdcAdmError_Inr)
qed

text \<open>One construction of each class, with the code, the exit status and the message
  that the theorem gives.\<close>

theorem error_taxonomy_witness:
  "map_sum id (\<lambda>e. (code e, message e, exitStatus e))
     (InternalError \<lparr>o_cause = Plain JUndefined, o_message = Plain (JStr ''disk full''),
        o_code = Plain JUndefined, o_statusCode = Plain JUndefined, o_exitStatus = 0\<rparr>)
     = Inr (''InternalError'', ''disk full'', 1) \<and>
   map_sum id (\<lambda>e. (code e, message e, exitStatus e))
     (UsageError (Plain (JStr ''bad option'')) (Plain JUndefined))
     = Inr (''Usage'', ''bad option'', 2) \<and>
   map_sum id (\<lambda>e. (code e, message e, exitStatus e))
     (UpdateError (Plain (JStr ''too old'')) (Plain JUndefined))
     = Inr (''Update'', ''too old'', 2) \<and>
   map_sum id (\<lambda>e. (code e, message e, exitStatus e))
     (SDCClientError (JObj [(''body'', JObj [(''message'', JStr ''boom'')])]) (JStr ''cnapi''))
     = Inr (''SDCClient'', ''cnapi client error: boom'', 1) \<and>
   map_sum id (\<lambda>e. (code e, message e, exitStatus e))
     (MultiError [Failure (Err ''Update'' ''too old'' None 2)])
     = Inr (''MultiError'',
            ''multiple (1) errors'' @ [CHR 0x0A] @ ''    error (Update): too old'', 1)"
  using error_taxonomy [of
      "\<lparr>o_cause = Plain JUndefined, o_message = Plain (JStr ''disk full''),
        o_code = Plain JUndefined, o_statusCode = Plain JUndefined, o_exitStatus = 0\<rparr>"
      "Err ''InternalError'' ''disk full'' None 1"
      "Plain (JStr ''bad option'')" "Plain JUndefined" "Err ''Usage'' ''bad option'' None 2"
      "Plain (JStr ''too old'')" "Plain JUndefined" "Err ''Update'' ''too old'' None 2"
      "JObj [(''body'', JObj [(''message'', JStr ''boom'')])]" "JStr ''cnapi''"
      "Err ''SDCClient'' ''cnapi client error: boom'' None 1"
      "[Failure (Err ''Update'' ''too old'' None 2)]"
      "Err ''MultiError''
             (''multiple (1) errors'' @ [CHR 0x0A] @ ''    error (Update): too old'')
             None 1"]
  by (simp add: InternalError_def UsageError_def UpdateError_def SDCClientError_def
        MultiError_def SdcAdmError_def dyn_optional_def optional_def multi_line_def
        string_of_nat.simps digit_def)

text \<open>The code of an \<open>InternalError\<close> is not \<open>Internal\<close>. An \<open>UpdateError\<close> built
  with a cause, and a \<open>MultiError\<close> built from one child, keep no cause.\<close>

theorem InternalError_code_counterexample:
  "map_sum id code
     (InternalError \<lparr>o_cause = Plain JUndefined, o_message = Plain (JStr ''disk full''),
        o_code = Plain JUndefined, o_statusCode = Plain JUndefined, o_exitStatus = 0\<rparr>)
     = Inr ''InternalError'' \<and>
   ''InternalError'' \<noteq> ''Internal'' \<and>
   map_sum id cause
     (UpdateError (Plain (JObj [(''message'', JStr ''connection refused'')]))
        (Plain (JStr ''too old'')))
     = Inr None \<and>
   map_sum id cause (MultiError [Failure (Err ''Update'' ''too old'' None 2)]) = Inr None"
  by (simp add: InternalError_def UpdateError_def MultiError_def SdcAdmError_def
        dyn_optional_def multi_line_def string_of_nat.simps digit_def)

lemma js_get_defined:
  "a \<noteq> JUndefined \<Longrightarrow> a \<noteq> JNull \<Longrightarrow> \<exists>v. js_get a k = Inr v"
  by (cases a) simp_all

lemma error_line_defined:
  assumes "e \<noteq> JUndefined" and "e \<noteq> JNull"
  shows "error_line e =
    Inr ([CHR 0x0A] @ ''    '' @ js_String (projr (js_get e ''field'')) @ '': '' @
         js_String (projr (js_get e ''code'')) @
         (if truthy (projr (js_get e ''message''))
          then '': '' @ js_String (projr (js_get e ''message'')) else []))"
proof -
  from assms obtain f c m where "js_get e ''field'' = Inr f" "js_get e ''code'' = Inr c"
    "js_get e ''message'' = Inr m"
    using js_get_defined by meson
  then show ?thesis by (simp add: error_line_def)
qed

lemma error_lines_defined:
  "list_all (\<lambda>e. e \<noteq> JUndefined \<and> e \<noteq> JNull) es \<Longrightarrow>
   error_lines es msg =
     Inr (msg @ concat (map (\<lambda>e.
        [CHR 0x0A] @ ''    '' @ js_String (projr (js_get e ''field'')) @ '': '' @
        js_String (projr (js_get e ''code'')) @
        (if truthy (projr (js_get e ''message''))
         then '': '' @ js_String (projr (js_get e ''message'')) else [])) es))"
proof (induction es arbitrary: msg)
  case Nil
  then show ?case by simp
next
  case (Cons e es)
  then have e: "e \<noteq> JUndefined" "e \<noteq> JNull"
    and rest: "list_all (\<lambda>e. e \<noteq> JUndefined \<and> e \<noteq> JNull) es" by simp_all
  show ?case
    by (simp add: error_line_defined [OF e] Cons.IH [OF rest])
qed

lemma js_get_JStr_obj:
  "js_get v k = Inr (JStr m) \<Longrightarrow> \<exists>kvs. v = JObj kvs"
  by (cases v) auto

text \<open>
  Claim C8, as the code has it. A cause whose \<open>body\<close> has no string \<open>message\<close> makes
  the constructor throw; no error value is built. What is thrown: the assertion on
  \<open>cause\<close> when the cause is not an object; a \<open>TypeError\<close> when the cause is \<open>null\<close> or
  has no \<open>body\<close>; the assertion on \<open>cause.body.code\<close> when the code is neither absent
  nor a string; the assertion on \<open>cause.body.message\<close> when the code passes and the
  message is not a string. A cause whose \<open>body\<close> has a string \<open>message\<close>, a \<open>code\<close>
  that is absent or a string, and \<open>errors\<close> that are absent (or falsy) or an array of
  entries none of which is \<open>null\<close>, with a string client name, is always accepted: the
  message is the client name, \<open>client error\<close>, the remote code in parentheses when it is
  a non-empty string, the remote message, and then for each entry of \<open>errors\<close> a new
  line of four spaces, the entry's \<open>field\<close>, its \<open>code\<close>, and its \<open>message\<close> when it
  has one.
\<close>

theorem SDCClientError_construction:
  "(\<not> (\<exists>body m. js_get cause0 ''body'' = Inr body \<and> js_get body ''message'' = Inr (JStr m))
      \<longrightarrow> (\<exists>t. SDCClientError cause0 clientName = Inl t)) \<and>
   (\<not> is_object cause0 \<longrightarrow>
      SDCClientError cause0 clientName = Inl (AssertionError ''cause'')) \<and>
   (is_object cause0 \<and>
    (cause0 = JNull \<or> js_get cause0 ''body'' = Inr JUndefined \<or>
     js_get cause0 ''body'' = Inr JNull) \<longrightarrow>
      SDCClientError cause0 clientName = Inl TypeError) \<and>
   (is_object cause0 \<and> js_get cause0 ''body'' = Inr body \<and>
    js_get body ''code'' = Inr bcode \<and> \<not> optional is_string bcode \<longrightarrow>
      SDCClientError cause0 clientName = Inl (AssertionError ''cause.body.code'')) \<and>
   (is_object cause0 \<and> js_get cause0 ''body'' = Inr body \<and>
    js_get body ''code'' = Inr bcode \<and> optional is_string bcode \<and>
    js_get body ''message'' = Inr bmsg \<and> \<not> is_string bmsg \<longrightarrow>
      SDCClientError cause0 clientName = Inl (AssertionError ''cause.body.message'')) \<and>
   (js_get cause0 ''body'' = Inr body \<and> js_get body ''message'' = Inr (JStr m) \<and>
    js_get body ''code'' = Inr bcode \<and> optional is_string bcode \<and>
    js_get body ''errors'' = Inr errors \<and>
    (if truthy errors
     then errors = JArr es \<and> list_all (\<lambda>e. e \<noteq> JUndefined \<and> e \<noteq> JNull) es
     else es = [])
      \<longrightarrow> SDCClientError cause0 (JStr n) =
              Inr (Err ''SDCClient''
                     (n @ '' client error'' @
                      (if truthy bcode then '' ('' @ js_String bcode @ '')'' else []) @
                      '': '' @ m @
                      concat (map (\<lambda>e.
                        [CHR 0x0A] @ ''    '' @ js_String (projr (js_get e ''field'')) @
                        '': '' @ js_String (projr (js_get e ''code'')) @
                        (if truthy (projr (js_get e ''message''))
                         then '': '' @ js_String (projr (js_get e ''message''))
                         else [])) es))
                     None 1))"
proof (intro conjI impI)
  assume no: "\<not> (\<exists>body m. js_get cause0 ''body'' = Inr body \<and>
                 js_get body ''message'' = Inr (JStr m))"
  show "\<exists>t. SDCClientError cause0 clientName = Inl t"
  proof (cases "SDCClientError cause0 clientName")
    case (Inl t)
    then show ?thesis by blast
  next
    case (Inr e)
    then obtain b bm where "js_get cause0 ''body'' = Inr b" "js_get b ''message'' = Inr bm"
      "is_string bm"
      by (auto simp: SDCClientError_def andThen_Inr split: if_splits)
    moreover then obtain s where "bm = JStr s" by (cases bm) auto
    ultimately show ?thesis using no by blast
  qed
next
  assume "\<not> is_object cause0"
  then show "SDCClientError cause0 clientName = Inl (AssertionError ''cause'')"
    by (simp add: SDCClientError_def)
next
  assume "is_object cause0 \<and>
    (cause0 = JNull \<or> js_get cause0 ''body'' = Inr JUndefined \<or>
     js_get cause0 ''body'' = Inr JNull)"
  then show "SDCClientError cause0 clientName = Inl TypeError"
    by (auto simp: SDCClientError_def)
next
  assume "is_object cause0 \<and> js_get cause0 ''body'' = Inr body \<and>
    js_get body ''code'' = Inr bcode \<and> \<not> optional is_string bcode"
  then show "SDCClientError cause0 clientName = Inl (AssertionError ''cause.body.code'')"
    by (simp add: SDCClientError_def)
next
  assume "is_object cause0 \<and> js_get cause0 ''body'' = Inr body \<and>
    js_get body ''code'' = Inr bcode \<and> optional is_string bcode \<and>
    js_get body ''message'' = Inr bmsg \<and> \<not> is_string bmsg"
  then show "SDCClientError cause0 clientName = Inl (AssertionError ''cause.body.message'')"
    by (simp add: SDCClientError_def)
next
  assume h: "js_get cause0 ''body'' = Inr body \<and> js_get body ''message'' = Inr (JStr m) \<and>
    js_get body ''code'' = Inr bcode \<and> optional is_string bcode \<and>
    js_get body ''errors'' = Inr errors \<and>
    (if truthy errors
     then errors = JArr es \<and> list_all (\<lambda>e. e \<noteq> JUndefined \<and> e \<noteq> JNull) es
     else es = [])"
  let ?lines = "concat (map (\<lambda>e.
                        [CHR 0x0A] @ ''    '' @ js_String (projr (js_get e ''field'')) @
                        '': '' @ js_String (projr (js_get e ''code'')) @
                        (if truthy (projr (js_get e ''message''))
                         then '': '' @ js_String (projr (js_get e ''message''))
                         else [])) es)"
  from h obtain kvs where body: "body = JObj kvs" using js_get_JStr_obj by blast
  with h obtain cvs where c0: "cause0 = JObj cvs" by (cases cause0) auto
  from h have all: "list_all (\<lambda>e. e \<noteq> JUndefined \<and> e \<noteq> JNull) es"
    by (auto split: if_splits)
  have msg: "(if truthy errors then forEach_errors errors (js_String (JStr m))
              else Inr (js_String (JStr m))) = Inr (m @ ?lines)"
  proof (cases "truthy errors")
    case True
    with h have "errors = JArr es" by simp
    with True all show ?thesis by (simp add: error_lines_defined)
  next
    case False
    with h have "es = []" by simp
    with False show ?thesis by simp
  qed
  from h have g: "js_get cause0 ''body'' = Inr body" "js_get body ''message'' = Inr (JStr m)"
    "js_get body ''code'' = Inr bcode" "optional is_string bcode"
    "js_get body ''errors'' = Inr errors" by simp_all
  from c0 have "is_object cause0" by simp
  then show "SDCClientError cause0 (JStr n) =
              Inr (Err ''SDCClient''
                     (n @ '' client error'' @
                      (if truthy bcode then '' ('' @ js_String bcode @ '')'' else []) @
                      '': '' @ m @ ?lines)
                     None 1)"
    by (simp add: SDCClientError_def SdcAdmError_def dyn_optional_def Let_def g msg)
qed


text \<open>A cause that is a string; a cause without a \<open>body\<close>; a body whose \<open>code\<close> is a
  number; a body whose \<open>message\<close> is a number; and a well-formed cause with two entries
  in \<open>errors\<close>, the second with a message.\<close>

theorem SDCClientError_construction_witness:
  "SDCClientError (JStr ''boom'') (JStr ''cnapi'') = Inl (AssertionError ''cause'') \<and>
   SDCClientError (JObj [(''message'', JStr ''boom'')]) (JStr ''cnapi'') = Inl TypeError \<and>
   SDCClientError (JObj [(''body'', JObj [(''code'', JNum 42)])]) (JStr ''cnapi'')
     = Inl (AssertionError ''cause.body.code'') \<and>
   SDCClientError (JObj [(''body'', JObj [(''message'', JNum 5)])]) (JStr ''cnapi'')
     = Inl (AssertionError ''cause.body.message'') \<and>
   SDCClientError
     (JObj [(''body'', JObj [(''message'', JStr ''Invalid parameters''),
              (''code'', JStr ''InvalidParameters''),
              (''errors'', JArr [JObj [(''field'', JStr ''image_uuid''),
                                       (''code'', JStr ''Missing'')],
                                 JObj [(''field'', JStr ''server''),
                                       (''code'', JStr ''Invalid''),
                                       (''message'', JStr ''not a UUID'')]])])])
     (JStr ''cnapi'') =
     Inr (Err ''SDCClient''
            (''cnapi client error (InvalidParameters): Invalid parameters'' @ [CHR 0x0A] @
             ''    image_uuid: Missing'' @ [CHR 0x0A] @
             ''    server: Invalid: not a UUID'')
            None 1)"
proof -
  have a: "SDCClientError (JStr ''boom'') (JStr ''cnapi'') = Inl (AssertionError ''cause'')"
    using SDCClientError_construction [of "JStr ''boom''" "JStr ''cnapi''"] by simp
  have b: "SDCClientError (JObj [(''message'', JStr ''boom'')]) (JStr ''cnapi'')
             = Inl TypeError"
    using SDCClientError_construction [of "JObj [(''message'', JStr ''boom'')]"
        "JStr ''cnapi''"] by simp
  have c: "SDCClientError (JObj [(''body'', JObj [(''code'', JNum 42)])]) (JStr ''cnapi'')
             = Inl (AssertionError ''cause.body.code'')"
    using SDCClientError_construction [of "JObj [(''body'', JObj [(''code'', JNum 42)])]"
        "JStr ''cnapi''" "JObj [(''code'', JNum 42)]" "JNum 42"]
    by (simp add: optional_def)
  have d: "SDCClientError (JObj [(''body'', JObj [(''message'', JNum 5)])]) (JStr ''cnapi'')
             = Inl (AssertionError ''cause.body.message'')"
    using SDCClientError_construction [of "JObj [(''body'', JObj [(''message'', JNum 5)])]"
        "JStr ''cnapi''" "JObj [(''message'', JNum 5)]" JUndefined "JNum 5"]
    by (simp add: optional_def)
  have e: "SDCClientError
     (JObj [(''body'', JObj [(''message'', JStr ''Invalid parameters''),
              (''code'', JStr ''InvalidParameters''),
              (''errors'', JArr [JObj [(''field'', JStr ''image_uuid''),
                                       (''code'', JStr ''Missing'')],
                                 JObj [(''field'', JStr ''server''),
                                       (''code'', JStr ''Invalid''),
                                       (''message'', JStr ''not a UUID'')]])])])
     (JStr ''cnapi'') =
     Inr (Err ''SDCClient''
            (''cnapi client error (InvalidParameters): Invalid parameters'' @ [CHR 0x0A] @
             ''    image_uuid: Missing'' @ [CHR 0x0A] @
             ''    server: Invalid: not a UUID'')
            None 1)"
    using SDCClientError_construction [of
      "JObj [(''body'', JObj [(''message'', JStr ''Invalid parameters''),
              (''code'', JStr ''InvalidParameters''),
              (''errors'', JArr [JObj [(''field'', JStr ''image_uuid''),
                                       (''code'', JStr ''Missing'')],
                                 JObj [(''field'', JStr ''server''),
                                       (''code'', JStr ''Invalid''),
                                       (''message'', JStr ''not a UUID'')]])])]"
      _
      "JObj [(''message'', JStr ''Invalid parameters''),
              (''code'', JStr ''InvalidParameters''),
              (''errors'', JArr [JObj [(''field'', JStr ''image_uuid''),
                                       (''code'', JStr ''Missing'')],
                                 JObj [(''field'', JStr ''server''),
                                       (''code'', JStr ''Invalid''),
                                       (''message'', JStr ''not a UUID'')]])]"
      "JStr ''InvalidParameters''" _ "''Invalid parameters''"
      "JArr [JObj [(''field'', JStr ''image_uuid''), (''code'', JStr ''Missing'')],
             JObj [(''field'', JStr ''server''), (''code'', JStr ''Invalid''),
                   (''message'', JStr ''not a UUID'')]]"
      "[JObj [(''field'', JStr ''image_uuid''), (''code'', JStr ''Missing'')],
        JObj [(''field'', JStr ''server''), (''code'', JStr ''Invalid''),
              (''message'', JStr ''not a UUID'')]]"
      "''cnapi''"]
    by (simp add: optional_def)
  from a b c d e show ?thesis by simp
qed

text \<open>Four causes with a string \<open>body.message\<close> that the constructor refuses: a
  \<open>body.code\<close> that is a number; \<open>body.errors\<close> that is a string; \<open>body.errors\<close> with
  a \<open>null\<close> entry; and a client name that is a number.\<close>

theorem SDCClientError_code_counterexample:
  "SDCClientError (JObj [(''body'', JObj [(''message'', JStr ''boom''), (''code'', JNum 42)])])
     (JStr ''cnapi'') = Inl (AssertionError ''cause.body.code'') \<and>
   SDCClientError
     (JObj [(''body'', JObj [(''message'', JStr ''boom''), (''errors'', JStr ''bad'')])])
     (JStr ''cnapi'') = Inl TypeError \<and>
   SDCClientError
     (JObj [(''body'', JObj [(''message'', JStr ''boom''), (''errors'', JArr [JNull])])])
     (JStr ''cnapi'') = Inl TypeError \<and>
   SDCClientError (JObj [(''body'', JObj [(''message'', JStr ''boom'')])]) (JNum 1)
     = Inl (AssertionError ''clientName'')"
  by (simp add: SDCClientError_def optional_def error_line_def)

section \<open>Properties of the poll loops\<close>

lemma new_UpdateError_eq [simp]: "new_UpdateError msg = Inr (Err ''Update'' msg None 2)"
  by (simp add: new_UpdateError_def UpdateError_def SdcAdmError_def dyn_optional_def)

lemma callback_with_simps [simp]:
  "callback_with (Inl t) = Uncaught t"
  "callback_with (Inr e) = Done (Some (Failure e))"
  by (simp_all add: callback_with_def)

lemma waitTask_spec:
  "counter < limit \<Longrightarrow>
   counter < attempts (waitTask env taskid counter) \<and>
   attempts (waitTask env taskid counter) \<le> limit \<and>
   waited (waitTask env taskid counter) =
     5000 * (attempts (waitTask env taskid counter) - (counter + 1)) \<and>
   (\<forall>k. counter < k \<and> k < attempts (waitTask env taskid counter) \<longrightarrow>
        task_answer taskid (cnapi_getTask env taskid k) = None) \<and>
   (case task_answer taskid
           (cnapi_getTask env taskid (attempts (waitTask env taskid counter))) of
      Some out \<Rightarrow> ended (waitTask env taskid counter) = out
    | None \<Rightarrow> attempts (waitTask env taskid counter) = limit \<and>
        ended (waitTask env taskid counter) =
          Done (Some (Failure (Err ''Update''
            (''Timeout(5m) waiting for task '' @ js_String taskid) None 2))))"
proof (induction env taskid counter rule: waitTask.induct)
  case (1 env taskid counter)
  show ?case
  proof (cases "task_answer taskid (cnapi_getTask env taskid (counter + 1))")
    case (Some out)
    then show ?thesis using "1.prems" by (auto simp add: waitTask.simps [of env taskid counter])
  next
    case None
    show ?thesis
    proof (cases "counter + 1 < limit")
      case True
      let ?r = "waitTask env taskid (counter + 1)"
      have eq: "waitTask env taskid counter = ?r\<lparr>waited := waited ?r + 5000\<rparr>"
        using None True by (simp add: waitTask.simps [of env taskid counter] Let_def)
      from "1.IH" [OF None True] True
      have ih: "counter + 1 < attempts ?r" "attempts ?r \<le> limit"
        "waited ?r = 5000 * (attempts ?r - (counter + 1 + 1))"
        "\<forall>k. counter + 1 < k \<and> k < attempts ?r \<longrightarrow>
            task_answer taskid (cnapi_getTask env taskid k) = None"
        "(case task_answer taskid (cnapi_getTask env taskid (attempts ?r)) of
            Some out \<Rightarrow> ended ?r = out
          | None \<Rightarrow> attempts ?r = limit \<and> ended ?r =
              Done (Some (Failure (Err ''Update''
                (''Timeout(5m) waiting for task '' @ js_String taskid) None 2))))"
        by simp_all
      have all: "\<forall>k. counter < k \<and> k < attempts ?r \<longrightarrow>
            task_answer taskid (cnapi_getTask env taskid k) = None"
      proof (intro allI impI)
        fix k assume k: "counter < k \<and> k < attempts ?r"
        show "task_answer taskid (cnapi_getTask env taskid k) = None"
        proof (cases "k = counter + 1")
          case True
          with None show ?thesis by simp
        next
          case False
          with k have "counter + 1 < k \<and> k < attempts ?r" by arith
          with ih(4) show ?thesis by blast
        qed
      qed
      from ih(1,3) have w: "waited ?r + 5000 = 5000 * (attempts ?r - (counter + 1))"
        by arith
      show ?thesis
        unfolding eq using ih(1,2,5) all w by (simp split: option.splits)
    next
      case False
      with "1.prems" have "counter + 1 = limit" by arith
      with None False show ?thesis
        by (auto simp add: waitTask.simps [of env taskid counter])
    qed
  qed
qed

lemma waitServer_spec:
  "counter < limit \<Longrightarrow>
   counter < attempts (waitServer env chg sv counter) \<and>
   attempts (waitServer env chg sv counter) \<le> limit \<and>
   waited (waitServer env chg sv counter) =
     5000 * (attempts (waitServer env chg sv counter) - (counter + 1)) \<and>
   (\<forall>k. counter < k \<and> k < attempts (waitServer env chg sv counter) \<longrightarrow>
        server_answer (uuid (change_image chg)) (cnapi_getServer env sv k) = None) \<and>
   (case server_answer (uuid (change_image chg))
           (cnapi_getServer env sv (attempts (waitServer env chg sv counter))) of
      Some out \<Rightarrow> ended (waitServer env chg sv counter) = out
    | None \<Rightarrow> attempts (waitServer env chg sv counter) = limit \<and>
        ended (waitServer env chg sv counter) =
          Done (Some (Failure (Err ''Update''
            (''Timeout(5m) waiting for cn-agent update on server '' @ sv) None 2))))"
proof (induction env chg sv counter rule: waitServer.induct)
  case (1 env chg sv counter)
  show ?case
  proof (cases "server_answer (uuid (change_image chg)) (cnapi_getServer env sv (counter + 1))")
    case (Some out)
    then show ?thesis using "1.prems" by (auto simp add: waitServer.simps [of env chg sv counter])
  next
    case None
    show ?thesis
    proof (cases "counter + 1 < limit")
      case True
      let ?r = "waitServer env chg sv (counter + 1)"
      have eq: "waitServer env chg sv counter = ?r\<lparr>waited := waited ?r + 5000\<rparr>"
        using None True by (simp add: waitServer.simps [of env chg sv counter] Let_def)
      from "1.IH" [OF None True] True
      have ih: "counter + 1 < attempts ?r" "attempts ?r \<le> limit"
        "waited ?r = 5000 * (attempts ?r - (counter + 1 + 1))"
        "\<forall>k. counter + 1 < k \<and> k < attempts ?r \<longrightarrow>
            server_answer (uuid (change_image chg)) (cnapi_getServer env sv k) = None"
        "(case server_answer (uuid (change_image chg)) (cnapi_getServer env sv (attempts ?r)) of
            Some out \<Rightarrow> ended ?r = out
          | None \<Rightarrow> attempts ?r = limit \<and> ended ?r =
              Done (Some (Failure (Err ''Update''
                (''Timeout(5m) waiting for cn-agent update on server '' @ sv) None 2))))"
        by simp_all
      have all: "\<forall>k. counter < k \<and> k < attempts ?r \<longrightarrow>
            server_answer (uuid (change_image chg)) (cnapi_getServer env sv k) = None"
      proof (intro allI impI)
        fix k assume k: "counter < k \<and> k < attempts ?r"
        show "server_answer (uuid (change_image chg)) (cnapi_getServer env sv k) = None"
        proof (cases "k = counter + 1")
          case True
          with None show ?thesis by simp
        next
          case False
          with k have "counter + 1 < k \<and> k < attempts ?r" by arith
          with ih(4) show ?thesis by blast
        qed
      qed
      from ih(1,3) have w: "waited ?r + 5000 = 5000 * (attempts ?r - (counter + 1))"
        by arith
      show ?thesis
        unfolding eq using ih(1,2,5) all w by (simp split: option.splits)
    next
      case False
      with "1.prems" have "counter + 1 = limit" by arith
      with None False show ?thesis
        by (auto simp add: waitServer.simps [of env chg sv counter])
    qed
  qed
qed


section \<open>What the poll loops report\<close>

lemma waitTask_first:
  "counter < k \<Longrightarrow> k \<le> limit \<Longrightarrow>
   \<forall>j. counter < j \<and> j < k \<longrightarrow> task_answer taskid (cnapi_getTask env taskid j) = None \<Longrightarrow>
   task_answer taskid (cnapi_getTask env taskid k) = Some out \<Longrightarrow>
   waitTask env taskid counter =
     \<lparr>ended = out, attempts = k, waited = 5000 * (k - (counter + 1))\<rparr>"
proof (induction "k - counter" arbitrary: counter)
  case 0
  then show ?case by simp
next
  case (Suc d)
  show ?case
  proof (cases "k = counter + 1")
    case True
    with Suc.prems show ?thesis by (simp add: waitTask.simps [of env taskid counter])
  next
    case False
    with Suc.prems have lt: "counter + 1 < k" by arith
    with Suc.prems have none: "task_answer taskid (cnapi_getTask env taskid (counter + 1)) = None"
      by simp
    from lt Suc.prems have lim: "counter + 1 < limit" by arith
    have d: "d = k - (counter + 1)" using Suc.hyps(2) by arith
    have "\<forall>j. counter + 1 < j \<and> j < k \<longrightarrow> task_answer taskid (cnapi_getTask env taskid j) = None"
      using Suc.prems(3) by simp
    from Suc.hyps(1) [OF d lt Suc.prems(2) this Suc.prems(4)]
    have "waitTask env taskid (counter + 1) =
            \<lparr>ended = out, attempts = k, waited = 5000 * (k - (counter + 1 + 1))\<rparr>" .
    moreover from lt have "5000 * (k - (counter + 1 + 1)) + 5000 = 5000 * (k - (counter + 1))"
      by arith
    ultimately show ?thesis using none lim
      by (simp add: waitTask.simps [of env taskid counter])
  qed
qed

lemma waitServer_first:
  "counter < k \<Longrightarrow> k \<le> limit \<Longrightarrow>
   \<forall>j. counter < j \<and> j < k \<longrightarrow>
       server_answer (uuid (change_image chg)) (cnapi_getServer env sv j) = None \<Longrightarrow>
   server_answer (uuid (change_image chg)) (cnapi_getServer env sv k) = Some out \<Longrightarrow>
   waitServer env chg sv counter =
     \<lparr>ended = out, attempts = k, waited = 5000 * (k - (counter + 1))\<rparr>"
proof (induction "k - counter" arbitrary: counter)
  case 0
  then show ?case by simp
next
  case (Suc d)
  show ?case
  proof (cases "k = counter + 1")
    case True
    with Suc.prems show ?thesis by (simp add: waitServer.simps [of env chg sv counter])
  next
    case False
    with Suc.prems have lt: "counter + 1 < k" by arith
    with Suc.prems have none:
      "server_answer (uuid (change_image chg)) (cnapi_getServer env sv (counter + 1)) = None"
      by simp
    from lt Suc.prems have lim: "counter + 1 < limit" by arith
    have d: "d = k - (counter + 1)" using Suc.hyps(2) by arith
    have "\<forall>j. counter + 1 < j \<and> j < k \<longrightarrow>
            server_answer (uuid (change_image chg)) (cnapi_getServer env sv j) = None"
      using Suc.prems(3) by simp
    from Suc.hyps(1) [OF d lt Suc.prems(2) this Suc.prems(4)]
    have "waitServer env chg sv (counter + 1) =
            \<lparr>ended = out, attempts = k, waited = 5000 * (k - (counter + 1 + 1))\<rparr>" .
    moreover from lt have "5000 * (k - (counter + 1 + 1)) + 5000 = 5000 * (k - (counter + 1))"
      by arith
    ultimately show ?thesis using none lim
      by (simp add: waitServer.simps [of env chg sv counter])
  qed
qed

lemma SDCClientError_Inr:
  assumes "SDCClientError c n = Inr e"
  shows "code e = ''SDCClient''" "exitStatus e = 1"
  using assms
  by (auto simp: SDCClientError_def Let_def andThen_Inr split: if_splits
        dest!: SdcAdmError_Inr)

text \<open>
  Claim C5, as the code has it. Let the \<open>k\<close>-th answer be the first that the callback of
  \<open>_waitTask\<close> does not pass over. When it reports status \<open>failure\<close> and the first
  entry of its history has an event, the poll fails with an \<open>UpdateError\<close> whose
  message is \<open>Task <id> failed\<close>, followed by the remote error's message when the event
  carries an error. When it reports status \<open>complete\<close>, the poll resolves with no
  error. When the query gave an error that \<open>SDCClientError\<close> accepts, the poll fails
  with the \<open>SDCClientError\<close> that the constructor builds from it.
\<close>

theorem task_poll_results:
  assumes "1 \<le> k" and "k \<le> 60"
    and "\<forall>j. 1 \<le> j \<and> j < k \<longrightarrow> task_answer taskid (cnapi_getTask env taskid j) = None"
    and "cnapi_getTask env taskid k = (err, task)"
  shows
    "(\<not> truthy err \<and> js_get task ''status'' = Inr (JStr ''failure'') \<and>
      js_get task ''history'' = Inr history \<and> js_first history = Inr h0 \<and>
      js_get h0 ''event'' = Inr event \<and> js_get event ''error'' = Inr error \<and>
      (if truthy error then js_get error ''message'' = Inr m else m = JUndefined) \<longrightarrow>
        ended (waitUntilTaskCompletes env taskid) =
          Done (Some (Failure (Err ''Update''
            (''Task '' @ js_String taskid @ '' failed'' @
             (if truthy error then '' with error: '' @ js_String m else []))
            None 2)))) \<and>
     (\<not> truthy err \<and> js_get task ''status'' = Inr (JStr ''complete'') \<longrightarrow>
        ended (waitUntilTaskCompletes env taskid) = Done None) \<and>
     (truthy err \<and> SDCClientError err (JStr ''cnapi'') = Inr e \<longrightarrow>
        ended (waitUntilTaskCompletes env taskid) = Done (Some (Failure e)) \<and>
        code e = ''SDCClient'' \<and> exitStatus e = 1)"
proof -
  have first: "ended (waitUntilTaskCompletes env taskid) = out"
    if "task_answer taskid (err, task) = Some out" for out
  proof -
    from assms(1) have "0 < k" by simp
    moreover from assms(2) have "k \<le> limit" by (simp add: limit_def)
    moreover from assms(3)
    have "\<forall>j. 0 < j \<and> j < k \<longrightarrow> task_answer taskid (cnapi_getTask env taskid j) = None"
      by (simp add: Suc_le_eq)
    moreover from that assms(4)
    have "task_answer taskid (cnapi_getTask env taskid k) = Some out" by simp
    ultimately show ?thesis
      unfolding waitUntilTaskCompletes_def by (simp add: waitTask_first)
  qed
  show ?thesis
  proof (intro conjI impI)
    assume h: "\<not> truthy err \<and> js_get task ''status'' = Inr (JStr ''failure'') \<and>
      js_get task ''history'' = Inr history \<and> js_first history = Inr h0 \<and>
      js_get h0 ''event'' = Inr event \<and> js_get event ''error'' = Inr error \<and>
      (if truthy error then js_get error ''message'' = Inr m else m = JUndefined)"
    then have "task_answer taskid (err, task) =
      Some (Done (Some (Failure (Err ''Update''
            (''Task '' @ js_String taskid @ '' failed'' @
             (if truthy error then '' with error: '' @ js_String m else []))
            None 2))))"
      by (simp add: task_answer_def)
    then show "ended (waitUntilTaskCompletes env taskid) =
          Done (Some (Failure (Err ''Update''
            (''Task '' @ js_String taskid @ '' failed'' @
             (if truthy error then '' with error: '' @ js_String m else []))
            None 2)))"
      by (rule first)
  next
    assume "\<not> truthy err \<and> js_get task ''status'' = Inr (JStr ''complete'')"
    then have "task_answer taskid (err, task) = Some (Done None)"
      by (simp add: task_answer_def)
    then show "ended (waitUntilTaskCompletes env taskid) = Done None"
      by (rule first)
  next
    assume h: "truthy err \<and> SDCClientError err (JStr ''cnapi'') = Inr e"
    then have "task_answer taskid (err, task) = Some (Done (Some (Failure e)))"
      by (simp add: task_answer_def)
    then show "ended (waitUntilTaskCompletes env taskid) = Done (Some (Failure e))"
      by (rule first)
    from h have "SDCClientError err (JStr ''cnapi'') = Inr e" by simp
    then show "code e = ''SDCClient''" "exitStatus e = 1"
      by (rule SDCClientError_Inr)+
  qed
qed


text \<open>Four tasks: one fails with a remote error text, one fails without, one
  completes at the second query, and one whose query gives an error.\<close>

theorem task_poll_results_witness:
  "ended (waitUntilTaskCompletes
      \<lparr>listInsts = (JNull, []), cnapi_post = (\<lambda>sv u. (JNull, JNull)),
       cnapi_getTask = (\<lambda>t k.
         if t = JStr ''t1'' then
           (JNull, JObj [(''status'', JStr ''failure''),
              (''history'', JArr [JObj [(''event'',
                 JObj [(''error'', JObj [(''message'', JStr ''disk full'')])])]])])
         else if t = JStr ''t2'' then
           (JNull, JObj [(''status'', JStr ''failure''),
              (''history'', JArr [JObj [(''event'', JObj [])]])])
         else if t = JStr ''t3'' then
           (JNull, JObj [(''status'', JStr (if k < 2 then ''active'' else ''complete''))])
         else (JObj [(''body'', JObj [(''message'', JStr ''no such task'')])], JUndefined)),
       cnapi_getServer = (\<lambda>sv k. (JNull, JNull)),
       semver_other = (\<lambda>v. Inr False)\<rparr> (JStr ''t1'')) =
     Done (Some (Failure (Err ''Update'' ''Task t1 failed with error: disk full'' None 2))) \<and>
   ended (waitUntilTaskCompletes
      \<lparr>listInsts = (JNull, []), cnapi_post = (\<lambda>sv u. (JNull, JNull)),
       cnapi_getTask = (\<lambda>t k.
         if t = JStr ''t1'' then
           (JNull, JObj [(''status'', JStr ''failure''),
              (''history'', JArr [JObj [(''event'',
                 JObj [(''error'', JObj [(''message'', JStr ''disk full'')])])]])])
         else if t = JStr ''t2'' then
           (JNull, JObj [(''status'', JStr ''failure''),
              (''history'', JArr [JObj [(''event'', JObj [])]])])
         else if t = JStr ''t3'' then
           (JNull, JObj [(''status'', JStr (if k < 2 then ''active'' else ''complete''))])
         else (JObj [(''body'', JObj [(''message'', JStr ''no such task'')])], JUndefined)),
       cnapi_getServer = (\<lambda>sv k. (JNull, JNull)),
       semver_other = (\<lambda>v. Inr False)\<rparr> (JStr ''t2'')) =
     Done (Some (Failure (Err ''Update'' ''Task t2 failed'' None 2))) \<and>
   ended (waitUntilTaskCompletes
      \<lparr>listInsts = (JNull, []), cnapi_post = (\<lambda>sv u. (JNull, JNull)),
       cnapi_getTask = (\<lambda>t k.
         if t = JStr ''t1'' then
           (JNull, JObj [(''status'', JStr ''failure''),
              (''history'', JArr [JObj [(''event'',
                 JObj [(''error'', JObj [(''message'', JStr ''disk full'')])])]])])
         else if t = JStr ''t2'' then
           (JNull, JObj [(''status'', JStr ''failure''),
              (''history'', JArr [JObj [(''event'', JObj [])]])])
         else if t = JStr ''t3'' then
           (JNull, JObj [(''status'', JStr (if k < 2 then ''active'' else ''complete''))])
         else (JObj [(''body'', JObj [(''message'', JStr ''no such task'')])], JUndefined)),
       cnapi_getServer = (\<lambda>sv k. (JNull, JNull)),
       semver_other = (\<lambda>v. Inr False)\<rparr> (JStr ''t3'')) = Done None \<and>
   ended (waitUntilTaskCompletes
      \<lparr>listInsts = (JNull, []), cnapi_post = (\<lambda>sv u. (JNull, JNull)),
       cnapi_getTask = (\<lambda>t k.
         if t = JStr ''t1'' then
           (JNull, JObj [(''status'', JStr ''failure''),
              (''history'', JArr [JObj [(''event'',
                 JObj [(''error'', JObj [(''message'', JStr ''disk full'')])])]])])
         else if t = JStr ''t2'' then
           (JNull, JObj [(''status'', JStr ''failure''),
              (''history'', JArr [JObj [(''event'', JObj [])]])])
         else if t = JStr ''t3'' then
           (JNull, JObj [(''status'', JStr (if k < 2 then ''active'' else ''complete''))])
         else (JObj [(''body'', JObj [(''message'', JStr ''no such task'')])], JUndefined)),
       cnapi_getServer = (\<lambda>sv k. (JNull, JNull)),
       semver_other = (\<lambda>v. Inr False)\<rparr> (JStr ''t4'')) =
     Done (Some (Failure (Err ''SDCClient'' ''cnapi client error: no such task'' None 1)))"
proof -
  let ?env = "\<lparr>listInsts = (JNull, []), cnapi_post = (\<lambda>sv u. (JNull, JNull)),
       cnapi_getTask = (\<lambda>t k.
         if t = JStr ''t1'' then
           (JNull, JObj [(''status'', JStr ''failure''),
              (''history'', JArr [JObj [(''event'',
                 JObj [(''error'', JObj [(''message'', JStr ''disk full'')])])]])])
         else if t = JStr ''t2'' then
           (JNull, JObj [(''status'', JStr ''failure''),
              (''history'', JArr [JObj [(''event'', JObj [])]])])
         else if t = JStr ''t3'' then
           (JNull, JObj [(''status'', JStr (if k < 2 then ''active'' else ''complete''))])
         else (JObj [(''body'', JObj [(''message'', JStr ''no such task'')])], JUndefined)),
       cnapi_getServer = (\<lambda>sv k. (JNull, JNull)),
       semver_other = (\<lambda>v. Inr False)\<rparr>"
  have a: "ended (waitUntilTaskCompletes ?env (JStr ''t1'')) =
     Done (Some (Failure (Err ''Update'' ''Task t1 failed with error: disk full'' None 2)))"
    using task_poll_results [of 1 "JStr ''t1''" ?env JNull
      "JObj [(''status'', JStr ''failure''),
              (''history'', JArr [JObj [(''event'',
                 JObj [(''error'', JObj [(''message'', JStr ''disk full'')])])]])]"
      "JArr [JObj [(''event'', JObj [(''error'', JObj [(''message'', JStr ''disk full'')])])]]"
      "JObj [(''event'', JObj [(''error'', JObj [(''message'', JStr ''disk full'')])])]"
      "JObj [(''error'', JObj [(''message'', JStr ''disk full'')])]"
      "JObj [(''message'', JStr ''disk full'')]" "JStr ''disk full''"]
    by simp
  have b: "ended (waitUntilTaskCompletes ?env (JStr ''t2'')) =
     Done (Some (Failure (Err ''Update'' ''Task t2 failed'' None 2)))"
    using task_poll_results [of 1 "JStr ''t2''" ?env JNull
      "JObj [(''status'', JStr ''failure''),
              (''history'', JArr [JObj [(''event'', JObj [])]])]"
      "JArr [JObj [(''event'', JObj [])]]" "JObj [(''event'', JObj [])]" "JObj []"
      JUndefined JUndefined]
    by simp
  have c: "ended (waitUntilTaskCompletes ?env (JStr ''t3'')) = Done None"
    using task_poll_results [of 2 "JStr ''t3''" ?env JNull
      "JObj [(''status'', JStr ''complete'')]"]
    by (simp add: task_answer_def)
  have d: "ended (waitUntilTaskCompletes ?env (JStr ''t4'')) =
     Done (Some (Failure (Err ''SDCClient'' ''cnapi client error: no such task'' None 1)))"
    using task_poll_results [of 1 "JStr ''t4''" ?env
      "JObj [(''body'', JObj [(''message'', JStr ''no such task'')])]" JUndefined
      _ _ _ _ _
      "Err ''SDCClient'' ''cnapi client error: no such task'' None 1"]
    by (simp add: SDCClientError_def SdcAdmError_def optional_def dyn_optional_def)
  from a b c d show ?thesis by simp
qed

text \<open>A task that reports \<open>failure\<close> with an empty history: reading \<open>event\<close> of
  \<open>history[0]\<close> throws, and the callback of the poll is never invoked. A query whose
  error has no \<open>body\<close>: the constructor of \<open>SDCClientError\<close> throws, and the callback
  of the poll is never invoked either.\<close>

theorem task_poll_empty_history_counterexample:
  "ended (waitUntilTaskCompletes
      \<lparr>listInsts = (JNull, []), cnapi_post = (\<lambda>sv u. (JNull, JNull)),
       cnapi_getTask = (\<lambda>t k.
         (JNull, JObj [(''status'', JStr ''failure''), (''history'', JArr [])])),
       cnapi_getServer = (\<lambda>sv k. (JNull, JNull)),
       semver_other = (\<lambda>v. Inr False)\<rparr> (JStr ''t1'')) = Uncaught TypeError \<and>
   ended (waitUntilTaskCompletes
      \<lparr>listInsts = (JNull, []), cnapi_post = (\<lambda>sv u. (JNull, JNull)),
       cnapi_getTask = (\<lambda>t k.
         (JObj [(''message'', JStr ''connect ECONNREFUSED'')], JUndefined)),
       cnapi_getServer = (\<lambda>sv k. (JNull, JNull)),
       semver_other = (\<lambda>v. Inr False)\<rparr> (JStr ''t1'')) = Uncaught TypeError"
  by (simp add: waitUntilTaskCompletes_def waitTask.simps task_answer_def
        SDCClientError_def)

lemma filter_cn_agent_total:
  "list_all (\<lambda>a. a \<noteq> JUndefined \<and> a \<noteq> JNull) ags \<Longrightarrow>
   filter_cn_agent ags = Inr (filter (\<lambda>a. js_get a ''name'' = Inr (JStr ''cn-agent'')) ags)"
proof (induction ags)
  case Nil
  then show ?case by simp
next
  case (Cons a ags)
  then obtain v where "js_get a ''name'' = Inr v"
    using js_get_defined [of a "''name''"] by auto
  with Cons show ?case by simp
qed

text \<open>
  Claim C10. Let the \<open>k\<close>-th answer of \<open>getServer\<close> be the first that the callback of
  \<open>_waitServer\<close> does not pass over, and let it be a server whose \<open>agents\<close> are an
  array of objects. When no entry is named \<open>cn-agent\<close>, the poll throws a
  \<open>TypeError\<close>: its callback is never invoked, and the worker of a cn-agent instance
  that reached the poll ends by that exception, with nothing pushed into the
  collector. When an entry is named \<open>cn-agent\<close>, that answer does not throw.
\<close>

theorem cn_agent_poll_needs_entry:
  assumes "1 \<le> k" and "k \<le> 60"
    and "\<forall>j. 1 \<le> j \<and> j < k \<longrightarrow>
           server_answer (uuid (change_image chg)) (cnapi_getServer env sv j) = None"
    and "cnapi_getServer env sv k = (err, srv)" and "\<not> truthy err"
    and "js_get srv ''agents'' = Inr (JArr ags)"
    and "list_all (\<lambda>a. a \<noteq> JUndefined \<and> a \<noteq> JNull) ags"
  shows
    "(list_all (\<lambda>a. js_get a ''name'' \<noteq> Inr (JStr ''cn-agent'')) ags \<longrightarrow>
        ended (waitUntilAgentsChange env chg sv) = Uncaught TypeError \<and>
        attempts (waitUntilAgentsChange env chg sv) = k \<and>
        (service arg = ''cn-agent'' \<and> server arg = sv \<and> inst_image arg \<noteq> None \<and>
         version arg = Some v \<and> v \<noteq> [] \<and> min_cn_agent env v = Inr True \<and>
         \<not> truthy (fst (cnapi_post env sv (uuid (change_image chg)))) \<longrightarrow>
           finish (upAgent env cnAgentInsts chg arg) = Threw TypeError)) \<and>
     (\<not> list_all (\<lambda>a. js_get a ''name'' \<noteq> Inr (JStr ''cn-agent'')) ags \<longrightarrow>
        (\<forall>t. server_answer (uuid (change_image chg)) (err, srv) \<noteq> Some (Uncaught t)))"
proof (intro conjI impI allI)
  note tot = filter_cn_agent_total [OF assms(7)]
  {
    assume none: "list_all (\<lambda>a. js_get a ''name'' \<noteq> Inr (JStr ''cn-agent'')) ags"
    then have "filter (\<lambda>a. js_get a ''name'' = Inr (JStr ''cn-agent'')) ags = []"
      by (induction ags) auto
    with tot assms(5,6)
    have ans: "server_answer (uuid (change_image chg)) (err, srv) = Some (Uncaught TypeError)"
      by (simp add: server_answer_def)
    from assms(1) have "0 < k" by simp
    moreover from assms(2) have "k \<le> limit" by (simp add: limit_def)
    moreover from assms(3)
    have "\<forall>j. 0 < j \<and> j < k \<longrightarrow>
            server_answer (uuid (change_image chg)) (cnapi_getServer env sv j) = None"
      by (simp add: Suc_le_eq)
    moreover from ans assms(4)
    have "server_answer (uuid (change_image chg)) (cnapi_getServer env sv k) =
            Some (Uncaught TypeError)" by simp
    ultimately have w: "waitUntilAgentsChange env chg sv =
        \<lparr>ended = Uncaught TypeError, attempts = k, waited = 5000 * (k - (0 + 1))\<rparr>"
      unfolding waitUntilAgentsChange_def by (rule waitServer_first)
    then show "ended (waitUntilAgentsChange env chg sv) = Uncaught TypeError"
      "attempts (waitUntilAgentsChange env chg sv) = k" by simp_all
    assume a: "service arg = ''cn-agent'' \<and> server arg = sv \<and> inst_image arg \<noteq> None \<and>
         version arg = Some v \<and> v \<noteq> [] \<and> min_cn_agent env v = Inr True \<and>
         \<not> truthy (fst (cnapi_post env sv (uuid (change_image chg))))"
    then obtain im where "inst_image arg = Some im" by auto
    with a w show "finish (upAgent env cnAgentInsts chg arg) = Threw TypeError"
      by (auto simp add: upAgent_def after_poll_def split: prod.splits)
  }
  fix t
  assume some: "\<not> list_all (\<lambda>a. js_get a ''name'' \<noteq> Inr (JStr ''cn-agent'')) ags"
  then obtain a rest where
    f: "filter (\<lambda>a. js_get a ''name'' = Inr (JStr ''cn-agent'')) ags = a # rest"
    by (cases "filter (\<lambda>a. js_get a ''name'' = Inr (JStr ''cn-agent'')) ags")
       (auto simp: list_all_iff filter_empty_conv)
  then have "a \<in> set (filter (\<lambda>a. js_get a ''name'' = Inr (JStr ''cn-agent'')) ags)" by simp
  then have "a \<in> set ags" by simp
  with assms(7) have "a \<noteq> JUndefined" "a \<noteq> JNull" by (auto simp: list_all_iff)
  then obtain u where "js_get a ''image_uuid'' = Inr u"
    using js_get_defined by blast
  with tot f assms(5,6)
  show "server_answer (uuid (change_image chg)) (err, srv) \<noteq> Some (Uncaught t)"
    by (simp add: server_answer_def)
qed

text \<open>A server that lists only a \<open>vm-agent\<close>: the poll of a cn-agent instance on it throws
  at the first query.\<close>

theorem cn_agent_poll_needs_entry_witness:
  "ended (waitUntilAgentsChange
      \<lparr>listInsts = (JNull, []),
       cnapi_post = (\<lambda>sv u. (JNull, JObj [(''id'', JStr ''t1'')])),
       cnapi_getTask = (\<lambda>t k. (JNull, JNull)),
       cnapi_getServer = (\<lambda>sv k. (JNull, JObj [(''agents'',
          JArr [JObj [(''name'', JStr ''vm-agent''), (''image_uuid'', JStr ''img-7'')]])])),
       semver_other = (\<lambda>v. Inr False)\<rparr>
      \<lparr>change_image = \<lparr>uuid = ''img-1''\<rparr>, insts = []\<rparr> ''s1'') = Uncaught TypeError \<and>
   finish (upAgent
      \<lparr>listInsts = (JNull, []),
       cnapi_post = (\<lambda>sv u. (JNull, JObj [(''id'', JStr ''t1'')])),
       cnapi_getTask = (\<lambda>t k. (JNull, JNull)),
       cnapi_getServer = (\<lambda>sv k. (JNull, JObj [(''agents'',
          JArr [JObj [(''name'', JStr ''vm-agent''), (''image_uuid'', JStr ''img-7'')]])])),
       semver_other = (\<lambda>v. Inr False)\<rparr> []
      \<lparr>change_image = \<lparr>uuid = ''img-1''\<rparr>, insts = []\<rparr>
      \<lparr>service = ''cn-agent'', server = ''s1'', version = Some ''1.5.0'',
       inst_image = Some \<lparr>uuid = ''img-1''\<rparr>\<rparr>) = Threw TypeError \<and>
   server_answer ''img-1'' (JNull, JObj [(''agents'',
          JArr [JObj [(''name'', JStr ''cn-agent''), (''image_uuid'', JStr ''img-7'')]])])
     \<noteq> Some (Uncaught TypeError)"
  using cn_agent_poll_needs_entry [of 1
      "\<lparr>change_image = \<lparr>uuid = ''img-1''\<rparr>, insts = []\<rparr>"
      "\<lparr>listInsts = (JNull, []),
       cnapi_post = (\<lambda>sv u. (JNull, JObj [(''id'', JStr ''t1'')])),
       cnapi_getTask = (\<lambda>t k. (JNull, JNull)),
       cnapi_getServer = (\<lambda>sv k. (JNull, JObj [(''agents'',
          JArr [JObj [(''name'', JStr ''vm-agent''), (''image_uuid'', JStr ''img-7'')]])])),
       semver_other = (\<lambda>v. Inr False)\<rparr>"
      "''s1''" JNull
      "JObj [(''agents'',
          JArr [JObj [(''name'', JStr ''vm-agent''), (''image_uuid'', JStr ''img-7'')]])]"
      "[JObj [(''name'', JStr ''vm-agent''), (''image_uuid'', JStr ''img-7'')]]"
      "\<lparr>service = ''cn-agent'', server = ''s1'', version = Some ''1.5.0'',
       inst_image = Some \<lparr>uuid = ''img-1''\<rparr>\<rparr>" "''1.5.0''" "[]"]
    cn_agent_poll_needs_entry [of 1
      "\<lparr>change_image = \<lparr>uuid = ''img-1''\<rparr>, insts = []\<rparr>"
      "\<lparr>listInsts = (JNull, []),
       cnapi_post = (\<lambda>sv u. (JNull, JObj [(''id'', JStr ''t1'')])),
       cnapi_getTask = (\<lambda>t k. (JNull, JNull)),
       cnapi_getServer = (\<lambda>sv k. (JNull, JObj [(''agents'',
          JArr [JObj [(''name'', JStr ''cn-agent''), (''image_uuid'', JStr ''img-7'')]])])),
       semver_other = (\<lambda>v. Inr False)\<rparr>"
      "''s1''" JNull
      "JObj [(''agents'',
          JArr [JObj [(''name'', JStr ''cn-agent''), (''image_uuid'', JStr ''img-7'')]])]"
      "[JObj [(''name'', JStr ''cn-agent''), (''image_uuid'', JStr ''img-7'')]]"]
  by (simp add: min_cn_agent_def parse_version_def parse_number_def digit_value_def
        satisfies_def ltr_def)

lemma task_answer_not_timeout:
  assumes "task_answer taskid a = Some out"
  shows "out \<noteq> Done (Some (Failure (Err ''Update''
            (''Timeout(5m) waiting for task '' @ js_String taskid) None 2)))"
proof
  assume t: "out = Done (Some (Failure (Err ''Update''
            (''Timeout(5m) waiting for task '' @ js_String taskid) None 2)))"
  obtain err task where a: "a = (err, task)" by (cases a)
  show False
  proof (cases "truthy err")
    case True
    with assms a t have "SDCClientError err (JStr ''cnapi'') =
        Inr (Err ''Update'' (''Timeout(5m) waiting for task '' @ js_String taskid) None 2)"
      by (cases "SDCClientError err (JStr ''cnapi'')") (simp_all add: task_answer_def)
    from SDCClientError_Inr(1) [OF this] show False by simp
  next
    case False
    with assms a t show False
      by (auto simp: task_answer_def split: sum.splits if_splits)
  qed
qed

lemma server_answer_not_timeout:
  assumes "server_answer u a = Some out"
  shows "out \<noteq> Done (Some (Failure (Err ''Update''
            (''Timeout(5m) waiting for cn-agent update on server '' @ sv) None 2)))"
proof
  assume t: "out = Done (Some (Failure (Err ''Update''
            (''Timeout(5m) waiting for cn-agent update on server '' @ sv) None 2)))"
  obtain err srv where a: "a = (err, srv)" by (cases a)
  show False
  proof (cases "truthy err")
    case True
    with assms a t have "SDCClientError err (JStr ''cnapi'') =
        Inr (Err ''Update'' (''Timeout(5m) waiting for cn-agent update on server '' @ sv)
               None 2)"
      by (cases "SDCClientError err (JStr ''cnapi'')") (simp_all add: server_answer_def)
    from SDCClientError_Inr(1) [OF this] show False by simp
  next
    case False
    with assms a t show False
      by (auto simp: server_answer_def split: sum.splits if_splits)
  qed
qed

text \<open>
  Claim C4. Both poll loops return for every sequence of answers. Each makes at least one
  and at most 60 queries and waits 5 seconds between two queries. No answer before the
  last one ended the loop. The last answer either ends the loop, and the loop reports
  what that answer gives, or it is the 60th, and the loop reports an \<open>UpdateError\<close>
  whose message is \<open>Timeout(5m)\<close> with the task or the server waited on. That
  error is reported at the 60th query only.
\<close>

theorem poll_loops_bounded:
  "1 \<le> attempts (waitUntilTaskCompletes env taskid) \<and>
   attempts (waitUntilTaskCompletes env taskid) \<le> 60 \<and>
   waited (waitUntilTaskCompletes env taskid) =
     5000 * (attempts (waitUntilTaskCompletes env taskid) - 1) \<and>
   (\<forall>k. 1 \<le> k \<and> k < attempts (waitUntilTaskCompletes env taskid) \<longrightarrow>
        task_answer taskid (cnapi_getTask env taskid k) = None) \<and>
   (case task_answer taskid
           (cnapi_getTask env taskid (attempts (waitUntilTaskCompletes env taskid))) of
      Some out \<Rightarrow> ended (waitUntilTaskCompletes env taskid) = out
    | None \<Rightarrow> attempts (waitUntilTaskCompletes env taskid) = 60 \<and>
        ended (waitUntilTaskCompletes env taskid) =
          Done (Some (Failure (Err ''Update''
            (''Timeout(5m) waiting for task '' @ js_String taskid) None 2)))) \<and>
   (ended (waitUntilTaskCompletes env taskid) =
      Done (Some (Failure (Err ''Update''
        (''Timeout(5m) waiting for task '' @ js_String taskid) None 2))) \<longrightarrow>
    attempts (waitUntilTaskCompletes env taskid) = 60) \<and>
   1 \<le> attempts (waitUntilAgentsChange env chg sv) \<and>
   attempts (waitUntilAgentsChange env chg sv) \<le> 60 \<and>
   waited (waitUntilAgentsChange env chg sv) =
     5000 * (attempts (waitUntilAgentsChange env chg sv) - 1) \<and>
   (\<forall>k. 1 \<le> k \<and> k < attempts (waitUntilAgentsChange env chg sv) \<longrightarrow>
        server_answer (uuid (change_image chg)) (cnapi_getServer env sv k) = None) \<and>
   (case server_answer (uuid (change_image chg))
           (cnapi_getServer env sv (attempts (waitUntilAgentsChange env chg sv))) of
      Some out \<Rightarrow> ended (waitUntilAgentsChange env chg sv) = out
    | None \<Rightarrow> attempts (waitUntilAgentsChange env chg sv) = 60 \<and>
        ended (waitUntilAgentsChange env chg sv) =
          Done (Some (Failure (Err ''Update''
            (''Timeout(5m) waiting for cn-agent update on server '' @ sv) None 2)))) \<and>
   (ended (waitUntilAgentsChange env chg sv) =
      Done (Some (Failure (Err ''Update''
        (''Timeout(5m) waiting for cn-agent update on server '' @ sv) None 2))) \<longrightarrow>
    attempts (waitUntilAgentsChange env chg sv) = 60)"
proof -
  have l: "0 < limit" by (simp add: limit_def)
  note t = waitTask_spec [OF l, of env taskid, folded waitUntilTaskCompletes_def]
  note s = waitServer_spec [OF l, of env chg sv, folded waitUntilAgentsChange_def]
  have tt: "attempts (waitUntilTaskCompletes env taskid) = 60"
    if "ended (waitUntilTaskCompletes env taskid) =
      Done (Some (Failure (Err ''Update''
        (''Timeout(5m) waiting for task '' @ js_String taskid) None 2)))"
    using t that task_answer_not_timeout [of taskid
        "cnapi_getTask env taskid (attempts (waitUntilTaskCompletes env taskid))"]
    by (auto simp: limit_def split: option.splits)
  have ss: "attempts (waitUntilAgentsChange env chg sv) = 60"
    if "ended (waitUntilAgentsChange env chg sv) =
      Done (Some (Failure (Err ''Update''
        (''Timeout(5m) waiting for cn-agent update on server '' @ sv) None 2)))"
    using s that server_answer_not_timeout [of "uuid (change_image chg)"
        "cnapi_getServer env sv (attempts (waitUntilAgentsChange env chg sv))" _ sv]
    by (auto simp: limit_def split: option.splits)
  from t s tt ss show ?thesis
    by (simp add: limit_def Suc_le_eq split: option.splits)
qed

text \<open>A task that stays \<open>active\<close> and a server whose cn-agent keeps its old image: both
  loops give up at the 60th query, after 59 waits of 5 seconds.\<close>

theorem poll_loops_bounded_witness:
  "attempts (waitUntilTaskCompletes
      \<lparr>listInsts = (JNull, []), cnapi_post = (\<lambda>sv u. (JNull, JNull)),
       cnapi_getTask = (\<lambda>t k. (JNull, JObj [(''status'', JStr ''active'')])),
       cnapi_getServer = (\<lambda>sv k. (JNull, JObj [(''agents'',
          JArr [JObj [(''name'', JStr ''cn-agent''), (''image_uuid'', JStr ''img-0'')]])])),
       semver_other = (\<lambda>v. Inr False)\<rparr> (JStr ''t1'')) = 60 \<and>
   waited (waitUntilTaskCompletes
      \<lparr>listInsts = (JNull, []), cnapi_post = (\<lambda>sv u. (JNull, JNull)),
       cnapi_getTask = (\<lambda>t k. (JNull, JObj [(''status'', JStr ''active'')])),
       cnapi_getServer = (\<lambda>sv k. (JNull, JObj [(''agents'',
          JArr [JObj [(''name'', JStr ''cn-agent''), (''image_uuid'', JStr ''img-0'')]])])),
       semver_other = (\<lambda>v. Inr False)\<rparr> (JStr ''t1'')) = 295000 \<and>
   ended (waitUntilTaskCompletes
      \<lparr>listInsts = (JNull, []), cnapi_post = (\<lambda>sv u. (JNull, JNull)),
       cnapi_getTask = (\<lambda>t k. (JNull, JObj [(''status'', JStr ''active'')])),
       cnapi_getServer = (\<lambda>sv k. (JNull, JObj [(''agents'',
          JArr [JObj [(''name'', JStr ''cn-agent''), (''image_uuid'', JStr ''img-0'')]])])),
       semver_other = (\<lambda>v. Inr False)\<rparr> (JStr ''t1'')) =
     Done (Some (Failure (Err ''Update'' ''Timeout(5m) waiting for task t1'' None 2))) \<and>
   attempts (waitUntilAgentsChange
      \<lparr>listInsts = (JNull, []), cnapi_post = (\<lambda>sv u. (JNull, JNull)),
       cnapi_getTask = (\<lambda>t k. (JNull, JObj [(''status'', JStr ''active'')])),
       cnapi_getServer = (\<lambda>sv k. (JNull, JObj [(''agents'',
          JArr [JObj [(''name'', JStr ''cn-agent''), (''image_uuid'', JStr ''img-0'')]])])),
       semver_other = (\<lambda>v. Inr False)\<rparr>
      \<lparr>change_image = \<lparr>uuid = ''img-1''\<rparr>, insts = []\<rparr> ''s1'') = 60 \<and>
   ended (waitUntilAgentsChange
      \<lparr>listInsts = (JNull, []), cnapi_post = (\<lambda>sv u. (JNull, JNull)),
       cnapi_getTask = (\<lambda>t k. (JNull, JObj [(''status'', JStr ''active'')])),
       cnapi_getServer = (\<lambda>sv k. (JNull, JObj [(''agents'',
          JArr [JObj [(''name'', JStr ''cn-agent''), (''image_uuid'', JStr ''img-0'')]])])),
       semver_other = (\<lambda>v. Inr False)\<rparr>
      \<lparr>change_image = \<lparr>uuid = ''img-1''\<rparr>, insts = []\<rparr> ''s1'') =
     Done (Some (Failure (Err ''Update''
       ''Timeout(5m) waiting for cn-agent update on server s1'' None 2)))"
  using poll_loops_bounded [of
      "\<lparr>listInsts = (JNull, []), cnapi_post = (\<lambda>sv u. (JNull, JNull)),
       cnapi_getTask = (\<lambda>t k. (JNull, JObj [(''status'', JStr ''active'')])),
       cnapi_getServer = (\<lambda>sv k. (JNull, JObj [(''agents'',
          JArr [JObj [(''name'', JStr ''cn-agent''), (''image_uuid'', JStr ''img-0'')]])])),
       semver_other = (\<lambda>v. Inr False)\<rparr>"
      "JStr ''t1''" "\<lparr>change_image = \<lparr>uuid = ''img-1''\<rparr>, insts = []\<rparr>" "''s1''"]
  by (simp add: task_answer_def server_answer_def)

section \<open>Properties of the procedure\<close>

text \<open>
  Claim C2. The first step of every Change takes the second-to-last dash-separated
  field of the version of the first cnapi instance and compares it, as a string, with
  \<open>20150407T172714Z\<close>. When the field is strictly lower, the Change fails with an
  \<open>UpdateError\<close> and leaves the shared state as it was: no \<open>install-agent\<close> request is
  posted. An \<open>execute\<close> of a non-empty Plan then fails with that error and has posted
  nothing.
\<close>

theorem cnapi_precondition:
  assumes "listInsts env = (err, instances)" and "\<not> truthy err"
    and "filter (\<lambda>i. service i = ''cnapi'') instances = i0 # rest"
    and "version i0 = Some v"
    and "second_to_last (split CHR ''-'' v) = Some curImg"
    and "curImg < ''20150407T172714Z''"
  shows "updateAgent env (chg, sched) s =
           (Done (Some (Failure (Err ''Update'' (too_old_message (Some curImg)) None 2))), s) \<and>
         (plan \<noteq> [] \<longrightarrow>
            uaExecute env plan =
              (Done (Some (Failure (Err ''Update'' (too_old_message (Some curImg)) None 2))),
               \<lparr>errs = [], posts = []\<rparr>))"
proof -
  from assms have c: "checkMinCNAPIVersion env =
      (Done (Some (Failure (Err ''Update'' (too_old_message (Some curImg)) None 2))),
       filter (\<lambda>i. service i = ''cn-agent'') instances)"
    by (simp add: checkMinCNAPIVersion_def MIN_CNAPI_VERSION_def)
  then have u: "updateAgent env cs s' =
           (Done (Some (Failure (Err ''Update'' (too_old_message (Some curImg)) None 2))), s')"
    for cs s'
    by (simp add: updateAgent_def)
  have "uaExecute env plan =
              (Done (Some (Failure (Err ''Update'' (too_old_message (Some curImg)) None 2))),
               \<lparr>errs = [], posts = []\<rparr>)" if "plan \<noteq> []"
    using that by (cases plan) (simp_all add: uaExecute_def u)
  with u show ?thesis by simp
qed

text \<open>A cnapi image built on 1 March 2015.\<close>

theorem cnapi_precondition_witness:
  "uaExecute
     \<lparr>listInsts = (JNull,
        [\<lparr>service = ''cnapi'', server = ''hn'',
          version = Some ''master-20150301T000000Z-g1234567'', inst_image = None\<rparr>,
         \<lparr>service = ''cn-agent'', server = ''s1'', version = Some ''1.5.0'',
          inst_image = None\<rparr>]),
      cnapi_post = (\<lambda>sv u. (JNull, JObj [(''id'', JStr ''t1'')])),
      cnapi_getTask = (\<lambda>t k. (JNull, JObj [(''status'', JStr ''complete'')])),
      cnapi_getServer = (\<lambda>sv k. (JNull, JNull)),
      semver_other = (\<lambda>v. Inr False)\<rparr>
     [(\<lparr>change_image = \<lparr>uuid = ''img-1''\<rparr>,
        insts = [\<lparr>service = ''vm-agent'', server = ''s1'', version = Some ''1.0.0'',
                  inst_image = Some \<lparr>uuid = ''img-1''\<rparr>\<rparr>]\<rparr>, [])] =
   (Done (Some (Failure (Err ''Update'' (too_old_message (Some ''20150301T000000Z''))
      None 2))), \<lparr>errs = [], posts = []\<rparr>)"
  using cnapi_precondition [of
     "\<lparr>listInsts = (JNull,
        [\<lparr>service = ''cnapi'', server = ''hn'',
          version = Some ''master-20150301T000000Z-g1234567'', inst_image = None\<rparr>,
         \<lparr>service = ''cn-agent'', server = ''s1'', version = Some ''1.5.0'',
          inst_image = None\<rparr>]),
      cnapi_post = (\<lambda>sv u. (JNull, JObj [(''id'', JStr ''t1'')])),
      cnapi_getTask = (\<lambda>t k. (JNull, JObj [(''status'', JStr ''complete'')])),
      cnapi_getServer = (\<lambda>sv k. (JNull, JNull)),
      semver_other = (\<lambda>v. Inr False)\<rparr>"
     JNull _ _ "[]" "''master-20150301T000000Z-g1234567''" "''20150301T000000Z''"
     _ _ _
     "[(\<lparr>change_image = \<lparr>uuid = ''img-1''\<rparr>,
        insts = [\<lparr>service = ''vm-agent'', server = ''s1'', version = Some ''1.0.0'',
                  inst_image = Some \<lparr>uuid = ''img-1''\<rparr>\<rparr>]\<rparr>, [])]"]
  by (simp add: second_to_last_def)

lemma split_Nil_single: "split c [] = [[]]"
  by simp






text \<open>
  Claim C1 at a dispatch error. A Change with one vm-agent instance on server s1; the
  co-located cn-agent reports 1.5.0; the \<open>install-agent\<close> request is answered with an
  error. The worker passes the \<open>SDCClientError\<close> to the queue's callback and pushes
  nothing: the collector stays empty and \<open>execute\<close> reports success.
\<close>

theorem dispatch_error_not_recorded:
  "uaExecute
     \<lparr>listInsts = (JNull,
        [\<lparr>service = ''cnapi'', server = ''hn'',
          version = Some ''master-20150501T000000Z-g1234567'', inst_image = None\<rparr>,
         \<lparr>service = ''cn-agent'', server = ''s1'', version = Some ''1.5.0'',
          inst_image = None\<rparr>]),
      cnapi_post = (\<lambda>sv u.
        (JObj [(''body'', JObj [(''message'', JStr ''server is not running'')])],
         JUndefined)),
      cnapi_getTask = (\<lambda>t k. (JNull, JObj [(''status'', JStr ''complete'')])),
      cnapi_getServer = (\<lambda>sv k. (JNull, JNull)),
      semver_other = (\<lambda>v. Inr False)\<rparr>
     [(\<lparr>change_image = \<lparr>uuid = ''img-1''\<rparr>,
        insts = [\<lparr>service = ''vm-agent'', server = ''s1'', version = Some ''1.0.0'',
                  inst_image = Some \<lparr>uuid = ''img-1''\<rparr>\<rparr>]\<rparr>, [])] =
   (Done None, \<lparr>errs = [], posts = [''s1'']\<rparr>) \<and>
   finish (upAgent
     \<lparr>listInsts = (JNull,
        [\<lparr>service = ''cnapi'', server = ''hn'',
          version = Some ''master-20150501T000000Z-g1234567'', inst_image = None\<rparr>,
         \<lparr>service = ''cn-agent'', server = ''s1'', version = Some ''1.5.0'',
          inst_image = None\<rparr>]),
      cnapi_post = (\<lambda>sv u.
        (JObj [(''body'', JObj [(''message'', JStr ''server is not running'')])],
         JUndefined)),
      cnapi_getTask = (\<lambda>t k. (JNull, JObj [(''status'', JStr ''complete'')])),
      cnapi_getServer = (\<lambda>sv k. (JNull, JNull)),
      semver_other = (\<lambda>v. Inr False)\<rparr>
     [\<lparr>service = ''cn-agent'', server = ''s1'', version = Some ''1.5.0'',
       inst_image = None\<rparr>]
     \<lparr>change_image = \<lparr>uuid = ''img-1''\<rparr>, insts = []\<rparr>
     \<lparr>service = ''vm-agent'', server = ''s1'', version = Some ''1.0.0'',
      inst_image = Some \<lparr>uuid = ''img-1''\<rparr>\<rparr>) =
   Dropped (Err ''SDCClient'' ''cnapi client error: server is not running'' None 1)"
  by (simp add: uaExecute_def updateAgent_def checkMinCNAPIVersion_def second_to_last_def
        MIN_CNAPI_VERSION_def updateAgentOnServers_def queue_events_def CN_CONCUR_def
        drain.simps upAgent_def min_cn_agent_def parse_version_def parse_number_def
        digit_value_def satisfies_def ltr_def SDCClientError_def SdcAdmError_def
        optional_def dyn_optional_def synchronous_def)


section \<open>Properties of the work queue\<close>

lemma drain_stuck:
  "\<not> (queued \<noteq> [] \<and> length pending < conc) \<Longrightarrow> pending = [] \<Longrightarrow>
   drain conc immediate sched queued pending = []"
  by (subst drain.simps) simp

lemma drain_Start_now:
  "queued \<noteq> [] \<and> length pending < conc \<Longrightarrow> immediate (hd queued) \<Longrightarrow>
   drain conc immediate sched queued pending =
     Start (hd queued) # Finish (hd queued) #
     drain conc immediate sched (tl queued) pending"
  by (subst drain.simps) simp

lemma drain_Start:
  "queued \<noteq> [] \<and> length pending < conc \<Longrightarrow> \<not> immediate (hd queued) \<Longrightarrow>
   drain conc immediate sched queued pending =
     Start (hd queued) # drain conc immediate sched (tl queued) (pending @ [hd queued])"
  by (subst drain.simps) simp

lemma drain_Finish:
  "\<not> (queued \<noteq> [] \<and> length pending < conc) \<Longrightarrow> pending \<noteq> [] \<Longrightarrow>
   i = (case sched of [] \<Rightarrow> 0 | c # _ \<Rightarrow> c mod length pending) \<Longrightarrow>
   drain conc immediate sched queued pending =
     Finish (pending ! i) #
     drain conc immediate (tl sched) queued (take i pending @ drop (Suc i) pending)"
  by (subst drain.simps) (simp add: Let_def)

lemma pick_length:
  "pending \<noteq> [] \<Longrightarrow> i = (case sched of [] \<Rightarrow> 0 | c # _ \<Rightarrow> c mod length pending) \<Longrightarrow>
   int (length (take i pending @ drop (Suc i) pending)) = int (length pending) - 1"
proof -
  assume ne: "pending \<noteq> []" and i: "i = (case sched of [] \<Rightarrow> 0 | c # _ \<Rightarrow> c mod length pending)"
  then have "i < length pending" by (simp split: list.splits)
  then have "length (take i pending @ drop (Suc i) pending) = length pending - 1" by simp
  moreover from ne have "int (length pending - 1) = int (length pending) - 1"
    by (cases pending) simp_all
  ultimately show ?thesis by (simp only:)
qed

lemma drain_running:
  "length pending \<le> conc \<Longrightarrow>
   0 \<le> int (length pending) + running (take n (drain conc immediate sched queued pending)) \<and>
   int (length pending) + running (take n (drain conc immediate sched queued pending))
     \<le> int conc"
proof (induction conc immediate sched queued pending arbitrary: n rule: drain.induct)
  case (1 conc immediate sched queued pending)
  show ?case
  proof (cases n)
    case 0
    with "1.prems" show ?thesis by simp
  next
    case (Suc m)
    show ?thesis
    proof (cases "queued \<noteq> [] \<and> length pending < conc")
      case True
      show ?thesis
      proof (cases "immediate (hd queued)")
        case now: True
        show ?thesis
        proof (cases m)
          case 0
          with True Suc show ?thesis
            unfolding drain_Start_now [where immediate = immediate and queued = queued, OF True now] by simp
        next
          case (Suc k)
          from "1.IH"(1) [OF True now "1.prems", of k]
          show ?thesis
            unfolding \<open>n = Suc m\<close> Suc drain_Start_now [where immediate = immediate and queued = queued, OF True now] by simp
        qed
      next
        case later: False
        from True have le: "length (pending @ [hd queued]) \<le> conc" by simp
        from "1.IH"(2) [OF True later le, of m]
        have "0 \<le> int (length pending) + 1 +
                running (take m (drain conc immediate sched (tl queued)
                  (pending @ [hd queued]))) \<and>
              int (length pending) + 1 +
                running (take m (drain conc immediate sched (tl queued)
                  (pending @ [hd queued])))
                \<le> int conc"
          by simp
        then show ?thesis unfolding Suc drain_Start [where immediate = immediate and queued = queued, OF True later] by simp
      qed
    next
      case False
      show ?thesis
      proof (cases "pending = []")
        case True
        with False have "drain conc immediate sched queued pending = []"
          by (rule drain_stuck)
        with True show ?thesis by simp
      next
        case ne: False
        define i where "i = (case sched of [] \<Rightarrow> 0 | c # _ \<Rightarrow> c mod length pending)"
        define p' where "p' = take i pending @ drop (Suc i) pending"
        have len: "int (length p') = int (length pending) - 1"
          unfolding p'_def using ne i_def by (rule pick_length)
        with "1.prems" have le: "length p' \<le> conc" by simp
        from "1.IH"(3) [OF False ne i_def le [unfolded p'_def], of m, folded p'_def]
        have "0 \<le> int (length p') +
                running (take m (drain conc immediate (tl sched) queued p')) \<and>
              int (length p') +
                running (take m (drain conc immediate (tl sched) queued p')) \<le> int conc" .
        with len show ?thesis
          unfolding Suc drain_Finish [OF False ne i_def, folded p'_def] by simp
      qed
    qed
  qed
qed

lemma drain_started:
  "0 < conc \<Longrightarrow> started (drain conc immediate sched queued pending) = queued"
proof (induction conc immediate sched queued pending rule: drain.induct)
  case (1 conc immediate sched queued pending)
  show ?case
  proof (cases "queued \<noteq> [] \<and> length pending < conc")
    case True
    show ?thesis
    proof (cases "immediate (hd queued)")
      case now: True
      from "1.IH"(1) [OF True now "1.prems"] True show ?thesis
        unfolding drain_Start_now [where immediate = immediate and queued = queued, OF True now] by simp
    next
      case later: False
      from "1.IH"(2) [OF True later "1.prems"] True show ?thesis
        unfolding drain_Start [where immediate = immediate and queued = queued, OF True later] by simp
    qed
  next
    case False
    show ?thesis
    proof (cases "pending = []")
      case True
      with False have "drain conc immediate sched queued pending = []"
        by (rule drain_stuck)
      with True False "1.prems" show ?thesis by simp
    next
      case ne: False
      from "1.IH"(3) [OF False ne refl "1.prems"] show ?thesis
        unfolding drain_Finish [OF False ne refl] by simp
    qed
  qed
qed

lemma drain_all_finish:
  "0 < conc \<Longrightarrow>
   int (length pending) + running (drain conc immediate sched queued pending) = 0"
proof (induction conc immediate sched queued pending rule: drain.induct)
  case (1 conc immediate sched queued pending)
  show ?case
  proof (cases "queued \<noteq> [] \<and> length pending < conc")
    case True
    show ?thesis
    proof (cases "immediate (hd queued)")
      case now: True
      from "1.IH"(1) [OF True now "1.prems"] show ?thesis
        unfolding drain_Start_now [where immediate = immediate and queued = queued, OF True now] by simp
    next
      case later: False
      from "1.IH"(2) [OF True later "1.prems"] show ?thesis
        unfolding drain_Start [where immediate = immediate and queued = queued, OF True later] by simp
    qed
  next
    case False
    show ?thesis
    proof (cases "pending = []")
      case True
      with False have "drain conc immediate sched queued pending = []"
        by (rule drain_stuck)
      with True show ?thesis by simp
    next
      case ne: False
      define i where "i = (case sched of [] \<Rightarrow> 0 | c # _ \<Rightarrow> c mod length pending)"
      define p' where "p' = take i pending @ drop (Suc i) pending"
      have len: "int (length p') = int (length pending) - 1"
        unfolding p'_def using ne i_def by (rule pick_length)
      from "1.IH"(3) [OF False ne i_def "1.prems", folded p'_def]
      have "int (length p') + running (drain conc immediate (tl sched) queued p') = 0" .
      with len show ?thesis
        unfolding drain_Finish [OF False ne i_def, folded p'_def] by simp
    qed
  qed
qed

text \<open>
  Claim C9. The instances of a Change go through one queue of concurrency 10. After
  any number of the queue's events, the number of workers that have started and not yet
  completed is between 0 and 10, whatever the number of instances, whichever workers
  complete before they return, and whatever the order in which the others complete. The
  workers start in the order of the Change's instance list, each instance once, and all
  have completed when the queue ends.
\<close>

theorem fan_out_bounded:
  "0 \<le> running (take n (queue_events CN_CONCUR immediate sched (insts chg))) \<and>
   running (take n (queue_events CN_CONCUR immediate sched (insts chg))) \<le> 10 \<and>
   started (queue_events CN_CONCUR immediate sched (insts chg)) = insts chg \<and>
   running (queue_events CN_CONCUR immediate sched (insts chg)) = 0"
proof -
  have "length ([] :: inst list) \<le> CN_CONCUR" by simp
  from drain_running [OF this, of n immediate sched "insts chg"]
  have "0 \<le> running (take n (queue_events CN_CONCUR immediate sched (insts chg)))"
    "running (take n (queue_events CN_CONCUR immediate sched (insts chg))) \<le> 10"
    by (simp_all add: queue_events_def CN_CONCUR_def)
  moreover have "0 < CN_CONCUR" by (simp add: CN_CONCUR_def)
  then have "started (queue_events CN_CONCUR immediate sched (insts chg)) = insts chg"
    "running (queue_events CN_CONCUR immediate sched (insts chg)) = 0"
    using drain_started [of CN_CONCUR immediate sched "insts chg" "[]"]
      drain_all_finish [of CN_CONCUR "[] :: inst list" immediate sched "insts chg"]
    by (simp_all add: queue_events_def)
  ultimately show ?thesis by simp
qed


section \<open>Properties of the Plan\<close>

lemma replay_frame:
  "replay w es \<lparr>errs = E1 @ E2, posts = P1 @ P2\<rparr> =
     (fst (replay w es \<lparr>errs = E2, posts = P2\<rparr>),
      \<lparr>errs = E1 @ errs (snd (replay w es \<lparr>errs = E2, posts = P2\<rparr>)),
       posts = P1 @ posts (snd (replay w es \<lparr>errs = E2, posts = P2\<rparr>))\<rparr>)"
proof (induction es arbitrary: E2 P2)
  case Nil
  then show ?case by simp
next
  case (Cons e es)
  show ?case
  proof (cases e)
    case (Start a)
    show ?thesis
    proof (cases "if synchronous (w a) then thrown_by (finish (w a)) else None")
      case None
      with Start Cons [of E2 "P2 @ posted (w a)"] show ?thesis by simp
    next
      case (Some t)
      with Start show ?thesis by simp
    qed
  next
    case (Finish a)
    show ?thesis
    proof (cases "finish (w a)")
      case (Recorded d)
      with Finish Cons [of "E2 @ [d]" P2] show ?thesis by simp
    next
      case (Dropped d)
      with Finish Cons [of E2 P2] show ?thesis by simp
    next
      case Clean
      with Finish Cons [of E2 P2] show ?thesis by simp
    next
      case (Threw t)
      with Finish show ?thesis by simp
    qed
  qed
qed

lemma updateAgentOnServers_frame:
  assumes "errs s = []"
  shows "updateAgentOnServers env cai chg sched s =
     (fst (updateAgentOnServers env cai chg sched \<lparr>errs = [], posts = []\<rparr>),
      \<lparr>errs = errs (snd (updateAgentOnServers env cai chg sched \<lparr>errs = [], posts = []\<rparr>)),
       posts = posts s @
         posts (snd (updateAgentOnServers env cai chg sched \<lparr>errs = [], posts = []\<rparr>))\<rparr>)"
proof -
  from assms have s: "s = \<lparr>errs = [] @ [], posts = posts s @ []\<rparr>" by simp
  let ?es = "queue_events CN_CONCUR (\<lambda>a. synchronous (upAgent env cai chg a)) sched
               (insts chg)"
  obtain t s' where r: "replay (upAgent env cai chg) ?es \<lparr>errs = [], posts = []\<rparr> = (t, s')"
    by (cases "replay (upAgent env cai chg) ?es \<lparr>errs = [], posts = []\<rparr>")
  have "replay (upAgent env cai chg) ?es s =
      (t, \<lparr>errs = errs s', posts = posts s @ posts s'\<rparr>)"
    by (subst s, subst replay_frame) (simp add: r)
  with r show ?thesis
    by (cases t) (simp_all add: updateAgentOnServers_def)
qed

lemma updateAgent_frame:
  assumes "errs s = []"
  shows "updateAgent env cs s =
     (fst (updateAgent env cs \<lparr>errs = [], posts = []\<rparr>),
      \<lparr>errs = errs (snd (updateAgent env cs \<lparr>errs = [], posts = []\<rparr>)),
       posts = posts s @ posts (snd (updateAgent env cs \<lparr>errs = [], posts = []\<rparr>))\<rparr>)"
proof -
  obtain out cai where c: "checkMinCNAPIVersion env = (out, cai)"
    by (cases "checkMinCNAPIVersion env")
  show ?thesis
  proof (cases "out = Done None")
    case True
    with c show ?thesis
      using updateAgentOnServers_frame [OF assms, of env cai "fst cs" "snd cs"]
      by (simp add: updateAgent_def)
  next
    case False
    with c assms show ?thesis
      by (cases out; cases "case out of Done x \<Rightarrow> x")
         (auto simp: updateAgent_def)
  qed
qed

lemma updateAgent_success_errs:
  "fst (updateAgent env cs \<lparr>errs = [], posts = []\<rparr>) = Done None \<Longrightarrow>
   errs (snd (updateAgent env cs \<lparr>errs = [], posts = []\<rparr>)) = []"
  by (auto simp: updateAgent_def updateAgentOnServers_def callback_with_def
        split: prod.splits outcome.splits option.splits if_splits sum.splits)

lemma forEachPipeline_updateAgent:
  "errs s = [] \<Longrightarrow>
   forEachPipeline (updateAgent env) plan s =
     (case dropWhile (\<lambda>cs. fst (updateAgent env cs \<lparr>errs = [], posts = []\<rparr>) = Done None) plan of
        [] \<Rightarrow> Done None
      | cs # _ \<Rightarrow> fst (updateAgent env cs \<lparr>errs = [], posts = []\<rparr>),
      \<lparr>errs =
         (case dropWhile (\<lambda>cs. fst (updateAgent env cs \<lparr>errs = [], posts = []\<rparr>) = Done None)
                 plan of
            [] \<Rightarrow> []
          | cs # _ \<Rightarrow> errs (snd (updateAgent env cs \<lparr>errs = [], posts = []\<rparr>))),
       posts = posts s @
         concat (map (\<lambda>cs. posts (snd (updateAgent env cs \<lparr>errs = [], posts = []\<rparr>)))
           (takeWhile (\<lambda>cs. fst (updateAgent env cs \<lparr>errs = [], posts = []\<rparr>) = Done None)
              plan @
            take 1 (dropWhile
              (\<lambda>cs. fst (updateAgent env cs \<lparr>errs = [], posts = []\<rparr>) = Done None) plan)))\<rparr>)"
proof (induction plan arbitrary: s)
  case Nil
  then show ?case by simp
next
  case (Cons cs plan)
  let ?A = "updateAgent env cs \<lparr>errs = [], posts = []\<rparr>"
  note fr = updateAgent_frame [OF Cons.prems, of env cs]
  show ?case
  proof (cases "fst ?A = Done None")
    case True
    then have e: "errs (snd ?A) = []" by (rule updateAgent_success_errs)
    let ?s' = "\<lparr>errs = errs (snd ?A), posts = posts s @ posts (snd ?A)\<rparr>"
    from e have "errs ?s' = []" by simp
    from Cons.IH [OF this] True fr show ?thesis by simp
  next
    case False
    with fr show ?thesis
      by (cases "fst ?A"; cases "case fst ?A of Done x \<Rightarrow> x") auto
  qed
qed


text \<open>
  Claim C7, as the code has it. Run each Change alone, from an empty collector and an
  empty log. Then \<open>execute\<close> on the Plan reports what the first Change that does not
  succeed alone reports, and success when there is none; its log of posted requests is
  the logs of the Changes up to and including that one, one after the other in the
  Plan's order. When no Change throws, the callback of \<open>execute\<close> is invoked, once,
  with that error or with success.
\<close>

theorem changes_run_in_order:
  "fst (uaExecute env plan) =
     (case dropWhile (\<lambda>cs. fst (updateAgent env cs \<lparr>errs = [], posts = []\<rparr>) = Done None) plan of
        [] \<Rightarrow> Done None
      | cs # _ \<Rightarrow> fst (updateAgent env cs \<lparr>errs = [], posts = []\<rparr>)) \<and>
   posts (snd (uaExecute env plan)) =
     concat (map (\<lambda>cs. posts (snd (updateAgent env cs \<lparr>errs = [], posts = []\<rparr>)))
       (takeWhile (\<lambda>cs. fst (updateAgent env cs \<lparr>errs = [], posts = []\<rparr>) = Done None) plan @
        take 1 (dropWhile
          (\<lambda>cs. fst (updateAgent env cs \<lparr>errs = [], posts = []\<rparr>) = Done None) plan))) \<and>
   ((\<forall>cs \<in> set plan. \<forall>t. fst (updateAgent env cs \<lparr>errs = [], posts = []\<rparr>) \<noteq> Uncaught t) \<longrightarrow>
      (\<exists>x. fst (uaExecute env plan) = Done x))"
proof -
  let ?good = "\<lambda>cs. fst (updateAgent env cs \<lparr>errs = [], posts = []\<rparr>) = Done None"
  have "errs \<lparr>errs = [], posts = []\<rparr> = []" by simp
  note fe = forEachPipeline_updateAgent [OF this, of env plan, folded uaExecute_def]
  from fe have out: "fst (uaExecute env plan) =
     (case dropWhile ?good plan of [] \<Rightarrow> Done None
      | cs # _ \<Rightarrow> fst (updateAgent env cs \<lparr>errs = [], posts = []\<rparr>))"
    by simp
  from fe have log: "posts (snd (uaExecute env plan)) =
     concat (map (\<lambda>cs. posts (snd (updateAgent env cs \<lparr>errs = [], posts = []\<rparr>)))
       (takeWhile ?good plan @ take 1 (dropWhile ?good plan)))"
    by simp
  have once: "\<exists>x. fst (uaExecute env plan) = Done x"
    if h: "\<forall>cs \<in> set plan. \<forall>t. fst (updateAgent env cs \<lparr>errs = [], posts = []\<rparr>) \<noteq> Uncaught t"
  proof (cases "dropWhile ?good plan")
    case Nil
    with out show ?thesis by simp
  next
    case (Cons cs rest)
    then have "cs \<in> set (dropWhile ?good plan)" by simp
    then have "cs \<in> set plan" by (rule set_dropWhileD)
    with h have "\<forall>t. fst (updateAgent env cs \<lparr>errs = [], posts = []\<rparr>) \<noteq> Uncaught t" by blast
    then obtain x where "fst (updateAgent env cs \<lparr>errs = [], posts = []\<rparr>) = Done x"
      by (cases "fst (updateAgent env cs \<lparr>errs = [], posts = []\<rparr>)") auto
    with out Cons show ?thesis by simp
  qed
  from out log once show ?thesis by blast
qed

text \<open>A Plan of three Changes, none of which throws. The first updates vm-agent on
  server s1 and succeeds. The second updates cn-agent on servers A and B: A reaches the
  image at the second query, B reports version 1.2.0. The third, which succeeds when it
  is run alone, is never reached.\<close>

theorem changes_run_in_order_witness:
  "fst (uaExecute
     \<lparr>listInsts = (JNull,
        [\<lparr>service = ''cnapi'', server = ''hn'',
          version = Some ''master-20150501T000000Z-g1234567'', inst_image = None\<rparr>,
         \<lparr>service = ''cn-agent'', server = ''s1'', version = Some ''1.5.0'',
          inst_image = None\<rparr>]),
      cnapi_post = (\<lambda>sv u. (JNull, JObj [(''id'', JStr ''t1'')])),
      cnapi_getTask = (\<lambda>t k. (JNull, JObj [(''status'', JStr ''complete'')])),
      cnapi_getServer = (\<lambda>sv k. (JNull, JObj [(''agents'',
         JArr [JObj [(''name'', JStr ''cn-agent''),
                     (''image_uuid'', JStr (if k < 2 then ''img-0'' else ''img-2''))]])])),
      semver_other = (\<lambda>v. Inr False)\<rparr>
     [(\<lparr>change_image = \<lparr>uuid = ''img-1''\<rparr>,
        insts = [\<lparr>service = ''vm-agent'', server = ''s1'', version = Some ''1.0.0'',
                  inst_image = Some \<lparr>uuid = ''img-1''\<rparr>\<rparr>]\<rparr>, []),
      (\<lparr>change_image = \<lparr>uuid = ''img-2''\<rparr>,
        insts = [\<lparr>service = ''cn-agent'', server = ''A'', version = Some ''1.5.0'',
                  inst_image = Some \<lparr>uuid = ''img-2''\<rparr>\<rparr>,
                 \<lparr>service = ''cn-agent'', server = ''B'', version = Some ''1.2.0'',
                  inst_image = Some \<lparr>uuid = ''img-2''\<rparr>\<rparr>]\<rparr>, [0]),
      (\<lparr>change_image = \<lparr>uuid = ''img-3''\<rparr>,
        insts = [\<lparr>service = ''vm-agent'', server = ''s1'', version = Some ''1.0.0'',
                  inst_image = Some \<lparr>uuid = ''img-3''\<rparr>\<rparr>]\<rparr>, [])]) =
   Done (Some (Failure (Err ''MultiError''
     (''multiple (1) errors'' @ [CHR 0x0A] @
      ''    error (Update): Invalid cn-agent version in server B. Minimal version to run agent updates is 1.4.0 (current version is 1.2.0)'')
     None 1))) \<and>
   posts (snd (uaExecute
     \<lparr>listInsts = (JNull,
        [\<lparr>service = ''cnapi'', server = ''hn'',
          version = Some ''master-20150501T000000Z-g1234567'', inst_image = None\<rparr>,
         \<lparr>service = ''cn-agent'', server = ''s1'', version = Some ''1.5.0'',
          inst_image = None\<rparr>]),
      cnapi_post = (\<lambda>sv u. (JNull, JObj [(''id'', JStr ''t1'')])),
      cnapi_getTask = (\<lambda>t k. (JNull, JObj [(''status'', JStr ''complete'')])),
      cnapi_getServer = (\<lambda>sv k. (JNull, JObj [(''agents'',
         JArr [JObj [(''name'', JStr ''cn-agent''),
                     (''image_uuid'', JStr (if k < 2 then ''img-0'' else ''img-2''))]])])),
      semver_other = (\<lambda>v. Inr False)\<rparr>
     [(\<lparr>change_image = \<lparr>uuid = ''img-1''\<rparr>,
        insts = [\<lparr>service = ''vm-agent'', server = ''s1'', version = Some ''1.0.0'',
                  inst_image = Some \<lparr>uuid = ''img-1''\<rparr>\<rparr>]\<rparr>, []),
      (\<lparr>change_image = \<lparr>uuid = ''img-2''\<rparr>,
        insts = [\<lparr>service = ''cn-agent'', server = ''A'', version = Some ''1.5.0'',
                  inst_image = Some \<lparr>uuid = ''img-2''\<rparr>\<rparr>,
                 \<lparr>service = ''cn-agent'', server = ''B'', version = Some ''1.2.0'',
                  inst_image = Some \<lparr>uuid = ''img-2''\<rparr>\<rparr>]\<rparr>, [0]),
      (\<lparr>change_image = \<lparr>uuid = ''img-3''\<rparr>,
        insts = [\<lparr>service = ''vm-agent'', server = ''s1'', version = Some ''1.0.0'',
                  inst_image = Some \<lparr>uuid = ''img-3''\<rparr>\<rparr>]\<rparr>, [])])) = [''s1'', ''A''] \<and>
   fst (updateAgent
     \<lparr>listInsts = (JNull,
        [\<lparr>service = ''cnapi'', server = ''hn'',
          version = Some ''master-20150501T000000Z-g1234567'', inst_image = None\<rparr>,
         \<lparr>service = ''cn-agent'', server = ''s1'', version = Some ''1.5.0'',
          inst_image = None\<rparr>]),
      cnapi_post = (\<lambda>sv u. (JNull, JObj [(''id'', JStr ''t1'')])),
      cnapi_getTask = (\<lambda>t k. (JNull, JObj [(''status'', JStr ''complete'')])),
      cnapi_getServer = (\<lambda>sv k. (JNull, JObj [(''agents'',
         JArr [JObj [(''name'', JStr ''cn-agent''),
                     (''image_uuid'', JStr (if k < 2 then ''img-0'' else ''img-2''))]])])),
      semver_other = (\<lambda>v. Inr False)\<rparr>
     (\<lparr>change_image = \<lparr>uuid = ''img-3''\<rparr>,
        insts = [\<lparr>service = ''vm-agent'', server = ''s1'', version = Some ''1.0.0'',
                  inst_image = Some \<lparr>uuid = ''img-3''\<rparr>\<rparr>]\<rparr>, []) \<lparr>errs = [], posts = []\<rparr>) = Done None"
  using changes_run_in_order [of
     "\<lparr>listInsts = (JNull,
        [\<lparr>service = ''cnapi'', server = ''hn'',
          version = Some ''master-20150501T000000Z-g1234567'', inst_image = None\<rparr>,
         \<lparr>service = ''cn-agent'', server = ''s1'', version = Some ''1.5.0'',
          inst_image = None\<rparr>]),
      cnapi_post = (\<lambda>sv u. (JNull, JObj [(''id'', JStr ''t1'')])),
      cnapi_getTask = (\<lambda>t k. (JNull, JObj [(''status'', JStr ''complete'')])),
      cnapi_getServer = (\<lambda>sv k. (JNull, JObj [(''agents'',
         JArr [JObj [(''name'', JStr ''cn-agent''),
                     (''image_uuid'', JStr (if k < 2 then ''img-0'' else ''img-2''))]])])),
      semver_other = (\<lambda>v. Inr False)\<rparr>"
     "[(\<lparr>change_image = \<lparr>uuid = ''img-1''\<rparr>,
        insts = [\<lparr>service = ''vm-agent'', server = ''s1'', version = Some ''1.0.0'',
                  inst_image = Some \<lparr>uuid = ''img-1''\<rparr>\<rparr>]\<rparr>, []),
      (\<lparr>change_image = \<lparr>uuid = ''img-2''\<rparr>,
        insts = [\<lparr>service = ''cn-agent'', server = ''A'', version = Some ''1.5.0'',
                  inst_image = Some \<lparr>uuid = ''img-2''\<rparr>\<rparr>,
                 \<lparr>service = ''cn-agent'', server = ''B'', version = Some ''1.2.0'',
                  inst_image = Some \<lparr>uuid = ''img-2''\<rparr>\<rparr>]\<rparr>, [0]),
      (\<lparr>change_image = \<lparr>uuid = ''img-3''\<rparr>,
        insts = [\<lparr>service = ''vm-agent'', server = ''s1'', version = Some ''1.0.0'',
                  inst_image = Some \<lparr>uuid = ''img-3''\<rparr>\<rparr>]\<rparr>, [])]"]
  by (simp add: updateAgent_def checkMinCNAPIVersion_def second_to_last_def
        MIN_CNAPI_VERSION_def updateAgentOnServers_def queue_events_def CN_CONCUR_def
        drain.simps upAgent_def min_cn_agent_def parse_version_def parse_number_def
        digit_value_def satisfies_def ltr_def pushed_def after_poll_def
        invalid_version_message_def synchronous_def
        waitUntilTaskCompletes_def waitTask.simps task_answer_def
        waitUntilAgentsChange_def waitServer.simps server_answer_def limit_def
        MultiError_def multi_line_def SdcAdmError_def dyn_optional_def
        string_of_nat.simps digit_def)

text \<open>A Plan of one Change that updates cn-agent on server s1, where the server's
  agent list has no cn-agent entry: the poll throws and the callback of \<open>execute\<close> is
  never invoked.\<close>

theorem execute_callback_counterexample:
  "fst (uaExecute
     \<lparr>listInsts = (JNull,
        [\<lparr>service = ''cnapi'', server = ''hn'',
          version = Some ''master-20150501T000000Z-g1234567'', inst_image = None\<rparr>]),
      cnapi_post = (\<lambda>sv u. (JNull, JObj [(''id'', JStr ''t1'')])),
      cnapi_getTask = (\<lambda>t k. (JNull, JObj [(''status'', JStr ''complete'')])),
      cnapi_getServer = (\<lambda>sv k. (JNull, JObj [(''agents'',
         JArr [JObj [(''name'', JStr ''vm-agent''), (''image_uuid'', JStr ''img-7'')]])])),
      semver_other = (\<lambda>v. Inr False)\<rparr>
     [(\<lparr>change_image = \<lparr>uuid = ''img-2''\<rparr>,
        insts = [\<lparr>service = ''cn-agent'', server = ''s1'', version = Some ''1.5.0'',
                  inst_image = Some \<lparr>uuid = ''img-2''\<rparr>\<rparr>]\<rparr>, [])]) =
   Uncaught TypeError"
  by (simp add: uaExecute_def updateAgent_def checkMinCNAPIVersion_def second_to_last_def
        MIN_CNAPI_VERSION_def updateAgentOnServers_def queue_events_def CN_CONCUR_def
        drain.simps upAgent_def min_cn_agent_def parse_version_def parse_number_def
        digit_value_def satisfies_def ltr_def after_poll_def synchronous_def
        waitUntilAgentsChange_def waitServer.simps server_answer_def)

end
